theory Spec2Isabelle
  imports Main "HOL-Library.Sublist"
begin

section \<open>The dependency update notifier (src/main.py)\<close>

text \<open>
  The program is a linear pipeline: list the installed packages with
  \<^verbatim>\<open>pip list\<close>, ask pip for the latest version of each one, compare the two
  versions of every package, print a summary, and optionally run the
  \<^verbatim>\<open>safety\<close> scanner. Everything it does to the outside is one of three
  things: it starts a process, it writes a log record, or it prints a line on
  standard output. The model records these as a list of events in the order
  in which they happen; every function returns its value together with the events
  it caused.

  Characters are code points below 256 (\<^typ>\<open>char\<close>); a Python \<^verbatim>\<open>str\<close> is a
  \<^typ>\<open>string\<close>. The time stamp that the log format puts in front of every
  record is left out.
\<close>

subsection \<open>Data\<close>

datatype level = DEBUG | INFO | WARNING | ERROR

datatype event =
    Run "string list"       \<comment> \<open>\<^verbatim>\<open>subprocess.run(command, ...)\<close> is called\<close>
  | Log level string        \<comment> \<open>\<^verbatim>\<open>logging.info/warning/error(message)\<close>\<close>
  | Print string            \<comment> \<open>\<^verbatim>\<open>print(line)\<close>\<close>

text \<open>
  The exception classes that the handlers of the source tell apart; every other
  exception is \<open>OtherException\<close>. \<open>CalledProcessError\<close> carries the command and the
  return code, the others the text Python would show for them.
\<close>

datatype exn =
    CalledProcessError "string list" int
  | JSONDecodeError string
  | FileNotFoundError
  | OtherException string

record completed_process =
  returncode :: int
  stdout :: string
  stderr :: string

text \<open>One entry of pip's JSON listing: \<^verbatim>\<open>{"name": ..., "version": ...}\<close>.\<close>

record package =
  name :: string
  version :: string

text \<open>
  One entry of \<^verbatim>\<open>updates_available\<close>: the dictionary with the keys
  \<^verbatim>\<open>name\<close>, \<^verbatim>\<open>installed_version\<close> and \<^verbatim>\<open>latest_version\<close>.
\<close>

record candidate =
  cand_name :: string
  installed_version :: string
  latest_version :: string

text \<open>
  What the program calls and does not define itself. \<open>subprocess_run\<close> is
  \<^verbatim>\<open>subprocess.run(command, capture_output=True, text=True, check=False)\<close>: it
  returns the completed process or raises. \<open>json_loads\<close> is \<^verbatim>\<open>json.loads\<close> on
  pip's listing: the decoded list of entries, or a raised \<open>JSONDecodeError\<close>; the
  listing is taken to have the shape pip documents (a list of objects with a name
  and a version). \<open>version_parse\<close> and \<open>version_lt\<close> are \<^verbatim>\<open>version.parse\<close> and
  \<^verbatim>\<open><\<close> of the \<^verbatim>\<open>packaging\<close> library, over its version values \<open>'v\<close>;
  \<open>Inl m\<close> is a raised \<^verbatim>\<open>InvalidVersion\<close> with text \<open>m\<close>, the only exception
  \<^verbatim>\<open>version.parse\<close> raises on a string. \<open>exn_str\<close> is \<^verbatim>\<open>str(e)\<close>, the text an
  f-string puts in for \<^verbatim>\<open>{e}\<close>.
\<close>

record 'v env =
  subprocess_run :: "string list \<Rightarrow> exn + completed_process"
  json_loads :: "string \<Rightarrow> exn + package list"
  version_parse :: "string \<Rightarrow> string + 'v"
  version_lt :: "'v \<Rightarrow> 'v \<Rightarrow> bool"
  exn_str :: "exn \<Rightarrow> string"

text \<open>The parsed command line (\<^verbatim>\<open>setup_argparse\<close>).\<close>

record args =
  requirements :: string
  project_path :: string
  verbose :: bool
  check_security :: bool

text \<open>What a run leaves behind: its events and the exit status of the process.\<close>

record outcome =
  events :: "event list"
  exit_status :: int

subsection \<open>Python's string operations\<close>

text \<open>
  \<^verbatim>\<open>s.find(sub, start)\<close>: the lowest index at or after \<open>start\<close> where \<open>sub\<close>
  occurs in \<open>s\<close>; Python's \<^verbatim>\<open>-1\<close> is \<open>None\<close>. \<open>find_at sub s i\<close> searches
  \<open>s\<close>, whose first character stands at index \<open>i\<close> of the whole string.
\<close>

fun find_at :: "string \<Rightarrow> string \<Rightarrow> nat \<Rightarrow> nat option" where
  "find_at sub [] i = (if sub = [] then Some i else None)"
| "find_at sub (c # cs) i = (if prefix sub (c # cs) then Some i else find_at sub cs (Suc i))"

definition py_find :: "string \<Rightarrow> string \<Rightarrow> nat \<Rightarrow> nat option" where
  "py_find s sub start = (if length s < start then None else find_at sub (drop start s) start)"

text \<open>\<^verbatim>\<open>s[i:j]\<close> for \<open>0 \<le> i\<close> and \<open>0 \<le> j\<close>.\<close>

definition py_slice :: "string \<Rightarrow> nat \<Rightarrow> nat \<Rightarrow> string" where
  "py_slice s i j = take (j - i) (drop i s)"

text \<open>
  The characters \<^verbatim>\<open>str.strip()\<close> removes: those below 256 for which
  \<^verbatim>\<open>str.isspace\<close> holds (tab to carriage return, the four separators
  \<^verbatim>\<open>\x1c\<close> to \<^verbatim>\<open>\x1f\<close>, the space, \<^verbatim>\<open>\x85\<close> and \<^verbatim>\<open>\xa0\<close>).
\<close>

definition is_space :: "char \<Rightarrow> bool" where
  "is_space c = (let n = of_char c :: nat in
     (9 \<le> n \<and> n \<le> 13) \<or> (28 \<le> n \<and> n \<le> 32) \<or> n = 133 \<or> n = 160)"

definition py_strip :: "string \<Rightarrow> string" where
  "py_strip s = rev (dropWhile is_space (rev (dropWhile is_space s)))"

text \<open>
  \<^verbatim>\<open>s.split(sep)\<close> for a separator of one character: the pieces between the
  separators, one more than there are separators (so never the empty list).
\<close>

fun py_split :: "char \<Rightarrow> string \<Rightarrow> string list" where
  "py_split sep [] = [[]]"
| "py_split sep (c # cs) =
     (if c = sep then [] # py_split sep cs
      else (case py_split sep cs of [] \<Rightarrow> [[c]] | w # ws \<Rightarrow> (c # w) # ws))"

text \<open>\<^verbatim>\<open>str(n)\<close> for an integer: decimal digits, a minus sign in front of a negative one.\<close>

definition digit_char :: "nat \<Rightarrow> char" where
  "digit_char d = char_of (48 + d)"

function str_nat :: "nat \<Rightarrow> string" where
  "str_nat n = (if n < 10 then [digit_char n] else str_nat (n div 10) @ [digit_char (n mod 10)])"
  by pat_completeness auto
termination
  by (relation "measure (\<lambda>n. n)") auto

definition str_int :: "int \<Rightarrow> string" where
  "str_int i = (if i < 0 then CHR ''-'' # str_nat (nat (- i)) else str_nat (nat i))"

subsection \<open>Package Lister: \<^verbatim>\<open>get_installed_packages\<close>\<close>

definition list_command :: "string \<Rightarrow> string list" where
  "list_command path =
     [''pip'', ''list'', ''--format=json''] @ (if path \<noteq> ''.'' then [''--path'', path] else [])"

text \<open>\<^verbatim>\<open>subprocess.run(..., check=True)\<close>: a return code other than 0 raises.\<close>

definition run_checked :: "'v env \<Rightarrow> string list \<Rightarrow> exn + completed_process" where
  "run_checked env command =
     (case subprocess_run env command of
        Inl e \<Rightarrow> Inl e
      | Inr r \<Rightarrow> if returncode r \<noteq> 0 then Inl (CalledProcessError command (returncode r)) else Inr r)"

text \<open>The body of the \<^verbatim>\<open>try\<close> block: what it returns, or the exception it raises.\<close>

definition list_try :: "'v env \<Rightarrow> string \<Rightarrow> exn + package list" where
  "list_try env path =
     (case run_checked env (list_command path) of
        Inl e \<Rightarrow> Inl e
      | Inr r \<Rightarrow> json_loads env (stdout r))"

text \<open>The handlers, in the order of the source; each logs an error and returns \<^verbatim>\<open>None\<close>.\<close>

fun list_handler :: "'v env \<Rightarrow> exn \<Rightarrow> string" where
  "list_handler env (CalledProcessError c n) =
     ''Error listing installed packages: '' @ exn_str env (CalledProcessError c n)"
| "list_handler env (JSONDecodeError m) =
     ''Error decoding JSON output from pip: '' @ exn_str env (JSONDecodeError m)"
| "list_handler env FileNotFoundError = ''pip not found. Ensure pip is installed and in your PATH.''"
| "list_handler env (OtherException m) =
     ''An unexpected error occurred: '' @ exn_str env (OtherException m)"

definition get_installed_packages :: "'v env \<Rightarrow> string \<Rightarrow> package list option \<times> event list" where
  "get_installed_packages env path =
     (case list_try env path of
        Inr pkgs \<Rightarrow> (Some pkgs, [Run (list_command path)])
      | Inl e \<Rightarrow> (None, [Run (list_command path), Log ERROR (list_handler env e)]))"

subsection \<open>Version Resolver: \<^verbatim>\<open>get_latest_package_version\<close>\<close>

definition marker :: string where
  "marker = ''(from versions:''"

definition install_command :: "string \<Rightarrow> string list" where
  "install_command package_name = [''pip'', ''install'', package_name @ ''==NonExistentVersion'']"

definition could_not_determine :: "string \<Rightarrow> event" where
  "could_not_determine package_name =
     Log WARNING (''Could not determine the latest version for '' @ package_name)"

text \<open>
  The text after the call of pip: from the error output to the answer, with the
  warning logged on each of the three ways out that return \<^verbatim>\<open>None\<close>.
\<close>

definition extract_latest :: "string \<Rightarrow> string \<Rightarrow> string option \<times> event list" where
  "extract_latest package_name output =
     (case py_find output marker 0 of
        None \<Rightarrow> (None, [could_not_determine package_name])
      | Some i \<Rightarrow>
          (let start_index = i + length marker in
           case py_find output '')'' start_index of
             None \<Rightarrow> (None, [could_not_determine package_name])
           | Some end_index \<Rightarrow>
               (let versions_str = py_strip (py_slice output start_index end_index);
                    versions = map py_strip (py_split CHR '','' versions_str)
                in if versions = [] then (None, [could_not_determine package_name])
                   else (Some (last versions), []))))"

fun latest_handler :: "'v env \<Rightarrow> string \<Rightarrow> exn \<Rightarrow> string" where
  "latest_handler env package_name (CalledProcessError c n) =
     ''Error getting latest version for '' @ package_name @ '': '' @ exn_str env (CalledProcessError c n)"
| "latest_handler env package_name FileNotFoundError =
     ''pip not found. Ensure pip is installed and in your PATH.''"
| "latest_handler env package_name e = ''An unexpected error occurred: '' @ exn_str env e"

definition get_latest_package_version :: "'v env \<Rightarrow> string \<Rightarrow> string option \<times> event list" where
  "get_latest_package_version env package_name =
     (case subprocess_run env (install_command package_name) of
        Inl e \<Rightarrow>
          (None, [Run (install_command package_name), Log ERROR (latest_handler env package_name e)])
      | Inr r \<Rightarrow>
          (case extract_latest package_name (stderr r) of
             (answer, logged) \<Rightarrow> (answer, Run (install_command package_name) # logged)))"

subsection \<open>Update Detector: \<^verbatim>\<open>check_for_updates\<close>\<close>

text \<open>\<^verbatim>\<open>if latest_version:\<close> holds for a string that is not empty, not for \<^verbatim>\<open>None\<close>.\<close>

fun truthy :: "string option \<Rightarrow> bool" where
  "truthy None = False"
| "truthy (Some s) = (s \<noteq> [])"

definition mk_candidate :: "string \<Rightarrow> string \<Rightarrow> string \<Rightarrow> candidate" where
  "mk_candidate package_name installed latest =
     \<lparr>cand_name = package_name, installed_version = installed, latest_version = latest\<rparr>"

definition update_available :: "string \<Rightarrow> string \<Rightarrow> string \<Rightarrow> event" where
  "update_available package_name installed latest =
     Log INFO (''Update available for '' @ package_name @ '': Installed version '' @ installed
               @ '', latest version '' @ latest)"

definition invalid_version_format :: "string \<Rightarrow> string \<Rightarrow> event" where
  "invalid_version_format package_name m =
     Log WARNING (''Invalid version format for '' @ package_name @ '': '' @ m)"

definition could_not_retrieve :: "string \<Rightarrow> event" where
  "could_not_retrieve package_name =
     Log WARNING (''Could not retrieve latest version for '' @ package_name @ ''. Skipping update check.'')"

text \<open>
  The \<^verbatim>\<open>try\<close> block of the loop: the installed version is parsed first, then
  the latest one; the first \<^verbatim>\<open>InvalidVersion\<close> is caught and logged.
\<close>

definition compare_versions ::
  "'v env \<Rightarrow> string \<Rightarrow> string \<Rightarrow> string \<Rightarrow> candidate list \<times> event list" where
  "compare_versions env package_name installed latest =
     (case version_parse env installed of
        Inl m \<Rightarrow> ([], [invalid_version_format package_name m])
      | Inr a \<Rightarrow>
          (case version_parse env latest of
             Inl m \<Rightarrow> ([], [invalid_version_format package_name m])
           | Inr b \<Rightarrow>
               if version_lt env a b
               then ([mk_candidate package_name installed latest],
                     [update_available package_name installed latest])
               else ([], [])))"

text \<open>
  One round of the loop: the candidates it appends and the events it causes. The
  versions are compared when the answer of the Resolver is a string that is not
  empty; \<^verbatim>\<open>None\<close> and the empty string take the \<^verbatim>\<open>else\<close> branch.
\<close>

definition check_package :: "'v env \<Rightarrow> package \<Rightarrow> candidate list \<times> event list" where
  "check_package env p =
     (case get_latest_package_version env (name p) of
        (None, looked_up) \<Rightarrow> ([], looked_up @ [could_not_retrieve (name p)])
      | (Some latest, looked_up) \<Rightarrow>
          if latest \<noteq> []
          then (case compare_versions env (name p) (version p) latest of
                  (found, logged) \<Rightarrow> (found, looked_up @ logged))
          else ([], looked_up @ [could_not_retrieve (name p)]))"

text \<open>The loop, with \<^verbatim>\<open>updates_available\<close> and the events so far as accumulators.\<close>

fun check_loop ::
  "'v env \<Rightarrow> package list \<Rightarrow> candidate list \<times> event list \<Rightarrow> candidate list \<times> event list" where
  "check_loop env [] acc = acc"
| "check_loop env (p # ps) acc =
     check_loop env ps
       (fst acc @ fst (check_package env p), snd acc @ snd (check_package env p))"

definition check_for_updates ::
  "'v env \<Rightarrow> package list option \<Rightarrow> candidate list \<times> event list" where
  "check_for_updates env installed_packages =
     (case installed_packages of
        None \<Rightarrow> ([], [Log ERROR ''No installed packages found. Exiting.''])
      | Some pkgs \<Rightarrow> check_loop env pkgs ([], []))"

subsection \<open>Vulnerability scanner: \<^verbatim>\<open>check_security_vulnerabilities\<close>\<close>

definition safety_command :: "string \<Rightarrow> string list" where
  "safety_command path =
     [''safety'', ''check'', ''--full-report''] @ (if path \<noteq> ''.'' then [''--project'', path] else [])"

definition safety_verdict :: "completed_process \<Rightarrow> event list" where
  "safety_verdict r =
     (if returncode r = 0 then [Log INFO ''No known security vulnerabilities found.'']
      else if returncode r = 1
      then [Log WARNING ''Security vulnerabilities found:'', Log WARNING (stdout r)]
      else [Log ERROR (''Safety check failed with return code '' @ str_int (returncode r)
                       @ '': '' @ stderr r)])"

fun safety_handler :: "'v env \<Rightarrow> exn \<Rightarrow> string" where
  "safety_handler env FileNotFoundError =
     ''Safety not found. Please install it using: pip install safety''"
| "safety_handler env e = ''An unexpected error occurred during safety check: '' @ exn_str env e"

definition check_security_vulnerabilities :: "'v env \<Rightarrow> string \<Rightarrow> event list" where
  "check_security_vulnerabilities env path =
     Run (safety_command path) #
     (case subprocess_run env (safety_command path) of
        Inl e \<Rightarrow> [Log ERROR (safety_handler env e)]
      | Inr r \<Rightarrow> safety_verdict r)"

subsection \<open>Reporter and \<^verbatim>\<open>main\<close>\<close>

definition update_line :: "candidate \<Rightarrow> string" where
  "update_line u =
     ''- '' @ cand_name u @ '': Installed version '' @ installed_version u
     @ '', latest version '' @ latest_version u"

text \<open>The summary that \<^verbatim>\<open>main\<close> prints (lines 166 to 171 of the source).\<close>

definition print_summary :: "candidate list \<Rightarrow> event list" where
  "print_summary updates_available =
     (if updates_available \<noteq> []
      then Print ''Updates available:'' # map (\<lambda>u. Print (update_line u)) updates_available
      else [Print ''All dependencies are up to date.''])"

text \<open>
  The update phase of \<^verbatim>\<open>main\<close>: \<^verbatim>\<open>if installed_packages:\<close> holds for a list
  that is not empty, not for \<^verbatim>\<open>None\<close> and not for the empty list.
\<close>

definition update_phase :: "'v env \<Rightarrow> package list option \<Rightarrow> event list" where
  "update_phase env installed_packages =
     (if installed_packages \<noteq> None \<and> installed_packages \<noteq> Some []
      then snd (check_for_updates env installed_packages)
           @ print_summary (fst (check_for_updates env installed_packages))
      else [Log ERROR ''Failed to retrieve installed packages. Check logs for details.''])"

definition security_phase :: "'v env \<Rightarrow> args \<Rightarrow> event list" where
  "security_phase env a =
     (if check_security a
      then Log INFO ''Checking for security vulnerabilities...''
           # check_security_vulnerabilities env (project_path a)
      else [])"

text \<open>
  \<^verbatim>\<open>main\<close>, from the parsed arguments on. The \<^verbatim>\<open>verbose\<close> flag lowers the
  threshold of the logger to \<^verbatim>\<open>DEBUG\<close>; the program writes no record below
  \<^verbatim>\<open>INFO\<close>, the threshold it starts with, so the flag changes no event. The
  function returns, and the process ends with status 0.
\<close>

definition main :: "'v env \<Rightarrow> args \<Rightarrow> outcome" where
  "main env a =
     \<lparr>events =
        [Log INFO ''Starting dependency update check...'']
        @ snd (get_installed_packages env (project_path a))
        @ update_phase env (fst (get_installed_packages env (project_path a)))
        @ security_phase env a
        @ [Log INFO ''Dependency update check complete.''],
      exit_status = 0\<rparr>"

subsection \<open>The process: command line and listing entries\<close>













text \<open>What a list of events shows on standard output, in the log, and as processes started.\<close>

fun printed :: "event list \<Rightarrow> string list" where
  "printed [] = []"
| "printed (Print s # es) = s # printed es"
| "printed (e # es) = printed es"

fun logged :: "event list \<Rightarrow> (level \<times> string) list" where
  "logged [] = []"
| "logged (Log l m # es) = (l, m) # logged es"
| "logged (e # es) = logged es"

fun started :: "event list \<Rightarrow> string list list" where
  "started [] = []"
| "started (Run c # es) = c # started es"
| "started (e # es) = started es"

definition warnings :: "event list \<Rightarrow> string list" where
  "warnings es = map snd (filter (\<lambda>r. fst r = WARNING) (logged es))"

subsection \<open>Versions\<close>

text \<open>
  Modelled from the spec: the version type of the \<^verbatim>\<open>packaging\<close> library, its
  parser \<^verbatim>\<open>version.parse\<close> and its order. The library is not part of the
  repository. A version has numeric release segments and optional pre-release,
  post-release and dev qualifiers; the strings read here are those of the normal
  form \<^verbatim>\<open>N(.N)*[{a|b|rc}N][.postN][.devN]\<close>, every other string is an invalid
  version. Versions are ordered by a key, as the library orders them: the release
  without its trailing zeros, then the pre-release, the post-release and the dev
  qualifier, where an absent qualifier stands below or above every present one.
\<close>

datatype pre_tag = Alpha | Beta | RC

record pversion =
  release :: "nat list"
  pre :: "(pre_tag \<times> nat) option"
  post :: "nat option"
  dev :: "nat option"

definition is_digit :: "char \<Rightarrow> bool" where
  "is_digit c = (48 \<le> (of_char c :: nat) \<and> (of_char c :: nat) \<le> 57)"

text \<open>\<^verbatim>\<open>int(s)\<close> for a string of digits.\<close>

definition digits_value :: "string \<Rightarrow> nat" where
  "digits_value s = foldl (\<lambda>n c. 10 * n + (of_char c - 48)) 0 s"

definition all_digits :: "string \<Rightarrow> bool" where
  "all_digits s = (s \<noteq> [] \<and> list_all is_digit s)"

text \<open>A number at the start of a string, at least one digit long, and what follows it.\<close>

definition parse_number :: "string \<Rightarrow> (nat \<times> string) option" where
  "parse_number s =
     (if takeWhile is_digit s = [] then None
      else Some (digits_value (takeWhile is_digit s), dropWhile is_digit s))"

text \<open>
  The release: the longest run of digits and dots at the start, without a last
  dot that no digit follows; its pieces between the dots must all be numbers.
\<close>

definition release_text :: "string \<Rightarrow> string" where
  "release_text s =
     (let run = takeWhile (\<lambda>c. is_digit c \<or> c = CHR ''.'') s
      in if run \<noteq> [] \<and> last run = CHR ''.'' then butlast run else run)"

definition parse_release :: "string \<Rightarrow> (nat list \<times> string) option" where
  "parse_release s =
     (let segments = py_split CHR ''.'' (release_text s)
      in if list_all all_digits segments
         then Some (map digits_value segments, drop (length (release_text s)) s)
         else None)"

text \<open>An optional qualifier: a fixed word and a number. \<open>None\<close> is a malformed one.\<close>

definition parse_tagged :: "string \<Rightarrow> string \<Rightarrow> (nat option \<times> string) option" where
  "parse_tagged word s =
     (if prefix word s
      then (case parse_number (drop (length word) s) of
              None \<Rightarrow> None
            | Some (n, rest) \<Rightarrow> Some (Some n, rest))
      else Some (None, s))"

definition parse_pre_number :: "pre_tag \<Rightarrow> string \<Rightarrow> ((pre_tag \<times> nat) option \<times> string) option" where
  "parse_pre_number t s =
     (case parse_number s of
        None \<Rightarrow> None
      | Some (n, rest) \<Rightarrow> Some (Some (t, n), rest))"

definition parse_pre :: "string \<Rightarrow> ((pre_tag \<times> nat) option \<times> string) option" where
  "parse_pre s =
     (if prefix ''rc'' s then parse_pre_number RC (drop 2 s)
      else if prefix ''a'' s then parse_pre_number Alpha (drop 1 s)
      else if prefix ''b'' s then parse_pre_number Beta (drop 1 s)
      else Some (None, s))"

text \<open>
  Modelled from the spec: \<^verbatim>\<open>version.parse\<close> of the \<^verbatim>\<open>packaging\<close> library
  (not in the repository), on the normal form above. \<open>None\<close> is a string that
  is not a version.
\<close>

definition parse_version :: "string \<Rightarrow> pversion option" where
  "parse_version s =
     (case parse_release s of
        None \<Rightarrow> None
      | Some (r, s1) \<Rightarrow>
          (case parse_pre s1 of
             None \<Rightarrow> None
           | Some (p, s2) \<Rightarrow>
               (case parse_tagged ''.post'' s2 of
                  None \<Rightarrow> None
                | Some (q, s3) \<Rightarrow>
                    (case parse_tagged ''.dev'' s3 of
                       None \<Rightarrow> None
                     | Some (d, s4) \<Rightarrow>
                         if s4 = [] then Some \<lparr>release = r, pre = p, post = q, dev = d\<rparr>
                         else None))))"

text \<open>The key: a value, or a bound below or above every value.\<close>

datatype 'a bounded = Lowest | Mid 'a | Highest

fun bounded_less :: "('a \<Rightarrow> 'a \<Rightarrow> bool) \<Rightarrow> 'a bounded \<Rightarrow> 'a bounded \<Rightarrow> bool" where
  "bounded_less lt Lowest y = (y \<noteq> Lowest)"
| "bounded_less lt (Mid x) Lowest = False"
| "bounded_less lt (Mid x) (Mid y) = lt x y"
| "bounded_less lt (Mid x) Highest = True"
| "bounded_less lt Highest y = False"

fun tag_rank :: "pre_tag \<Rightarrow> nat" where
  "tag_rank Alpha = 0"
| "tag_rank Beta = 1"
| "tag_rank RC = 2"

definition pre_less :: "pre_tag \<times> nat \<Rightarrow> pre_tag \<times> nat \<Rightarrow> bool" where
  "pre_less x y =
     (tag_rank (fst x) < tag_rank (fst y) \<or> (fst x = fst y \<and> snd x < snd y))"

text \<open>Tuples of numbers in Python's order: position by position, a proper prefix first.\<close>

fun tuple_less :: "nat list \<Rightarrow> nat list \<Rightarrow> bool" where
  "tuple_less [] [] = False"
| "tuple_less [] (y # ys) = True"
| "tuple_less (x # xs) [] = False"
| "tuple_less (x # xs) (y # ys) = (x < y \<or> (x = y \<and> tuple_less xs ys))"

definition strip_zeros :: "nat list \<Rightarrow> nat list" where
  "strip_zeros r = rev (dropWhile (\<lambda>n. n = 0) (rev r))"

definition pre_key :: "pversion \<Rightarrow> (pre_tag \<times> nat) bounded" where
  "pre_key v =
     (case pre v of
        Some p \<Rightarrow> Mid p
      | None \<Rightarrow> if post v = None \<and> dev v \<noteq> None then Lowest else Highest)"

definition post_key :: "pversion \<Rightarrow> nat bounded" where
  "post_key v = (case post v of None \<Rightarrow> Lowest | Some n \<Rightarrow> Mid n)"

definition dev_key :: "pversion \<Rightarrow> nat bounded" where
  "dev_key v = (case dev v of None \<Rightarrow> Highest | Some n \<Rightarrow> Mid n)"

text \<open>
  Modelled from the spec: \<^verbatim>\<open><\<close> on the versions of the \<^verbatim>\<open>packaging\<close>
  library (not in the repository): the order of the keys, component by component.
\<close>

definition version_less :: "pversion \<Rightarrow> pversion \<Rightarrow> bool" where
  "version_less a b =
     (tuple_less (strip_zeros (release a)) (strip_zeros (release b))
      \<or> (strip_zeros (release a) = strip_zeros (release b)
         \<and> (bounded_less pre_less (pre_key a) (pre_key b)
            \<or> (pre_key a = pre_key b
               \<and> (bounded_less (<) (post_key a) (post_key b)
                  \<or> (post_key a = post_key b
                     \<and> bounded_less (<) (dev_key a) (dev_key b)))))))"

text \<open>
  The order in the words of the specification: release segments are compared as
  numbers, position by position, a missing segment counting as 0; for equal
  releases a dev release comes first, then the pre-releases (alpha, beta, release
  candidate, each by its number), then the final release, then its post-releases.
\<close>

fun segments_less :: "nat list \<Rightarrow> nat list \<Rightarrow> bool" where
  "segments_less [] [] = False"
| "segments_less [] (y # ys) = (0 < y \<or> segments_less [] ys)"
| "segments_less (x # xs) [] = (x < 0 \<or> (x = 0 \<and> segments_less xs []))"
| "segments_less (x # xs) (y # ys) = (x < y \<or> (x = y \<and> segments_less xs ys))"

fun segments_equal :: "nat list \<Rightarrow> nat list \<Rightarrow> bool" where
  "segments_equal [] [] = True"
| "segments_equal [] (y # ys) = (y = 0 \<and> segments_equal [] ys)"
| "segments_equal (x # xs) [] = (x = 0 \<and> segments_equal xs [])"
| "segments_equal (x # xs) (y # ys) = (x = y \<and> segments_equal xs ys)"

definition stage :: "pversion \<Rightarrow> nat" where
  "stage v =
     (case pre v of
        Some (t, n) \<Rightarrow> 1 + tag_rank t
      | None \<Rightarrow> if post v = None \<and> dev v \<noteq> None then 0 else 4)"

definition pre_number :: "pversion \<Rightarrow> nat" where
  "pre_number v = (case pre v of Some (t, n) \<Rightarrow> n | None \<Rightarrow> 0)"

fun post_before :: "nat option \<Rightarrow> nat option \<Rightarrow> bool" where
  "post_before None (Some n) = True"
| "post_before (Some m) (Some n) = (m < n)"
| "post_before x None = False"

fun dev_before :: "nat option \<Rightarrow> nat option \<Rightarrow> bool" where
  "dev_before (Some m) None = True"
| "dev_before (Some m) (Some n) = (m < n)"
| "dev_before None y = False"

definition qualifier_less :: "pversion \<Rightarrow> pversion \<Rightarrow> bool" where
  "qualifier_less a b =
     (stage a < stage b
      \<or> (stage a = stage b
         \<and> (pre_number a < pre_number b
            \<or> (pre_number a = pre_number b
               \<and> (post_before (post a) (post b)
                  \<or> (post a = post b \<and> dev_before (dev a) (dev b)))))))"

definition semver_less :: "pversion \<Rightarrow> pversion \<Rightarrow> bool" where
  "semver_less a b =
     (segments_less (release a) (release b)
      \<or> (segments_equal (release a) (release b) \<and> qualifier_less a b))"

text \<open>Strings in Python's order: character by character, by code point.\<close>

fun lexical_less :: "string \<Rightarrow> string \<Rightarrow> bool" where
  "lexical_less [] [] = False"
| "lexical_less [] (y # ys) = True"
| "lexical_less (x # xs) [] = False"
| "lexical_less (x # xs) (y # ys) =
     ((of_char x :: nat) < of_char y \<or> (x = y \<and> lexical_less xs ys))"

text \<open>
  Modelled from the spec: \<^verbatim>\<open>version.parse\<close> with the text of the
  \<^verbatim>\<open>InvalidVersion\<close> it raises (the library quotes the string it rejects).
\<close>

definition pep440_parse :: "string \<Rightarrow> string + pversion" where
  "pep440_parse s =
     (case parse_version s of
        None \<Rightarrow> Inl (''Invalid version: '' @ [char_of (39 :: nat)] @ s @ [char_of (39 :: nat)])
      | Some v \<Rightarrow> Inr v)"

subsection \<open>What the specification says the Detector returns\<close>

definition resolver_answer :: "'v env \<Rightarrow> package \<Rightarrow> string option" where
  "resolver_answer env p = fst (get_latest_package_version env (name p))"

text \<open>Both version strings parse, and the installed version is below the latest one.\<close>

definition outdated :: "'v env \<Rightarrow> string \<Rightarrow> string \<Rightarrow> bool" where
  "outdated env installed latest =
     (case version_parse env installed of
        Inl m \<Rightarrow> False
      | Inr a \<Rightarrow> (case version_parse env latest of Inl m \<Rightarrow> False | Inr b \<Rightarrow> version_lt env a b))"

definition needs_update :: "'v env \<Rightarrow> package \<Rightarrow> bool" where
  "needs_update env p =
     (case resolver_answer env p of None \<Rightarrow> False | Some latest \<Rightarrow> outdated env (version p) latest)"

definition candidate_of :: "'v env \<Rightarrow> package \<Rightarrow> candidate" where
  "candidate_of env p =
     mk_candidate (name p) (version p) (case resolver_answer env p of None \<Rightarrow> [] | Some latest \<Rightarrow> latest)"

definition spec_candidates :: "'v env \<Rightarrow> package list \<Rightarrow> candidate list" where
  "spec_candidates env pkgs = map (candidate_of env) (filter (needs_update env) pkgs)"

subsection \<open>An example environment\<close>

text \<open>
  An environment with the version model above, for running the program on
  concrete inputs: \<open>run\<close> answers the commands, the listing is decoded for two
  texts, and an exception shows as the name of its class.
\<close>

definition example_loads :: "string \<Rightarrow> exn + package list" where
  "example_loads s =
     (if s = ''[]'' then Inr []
      else if s = ''[foo 1.2.0, bar 2.0.0]''
      then Inr [\<lparr>name = ''foo'', version = ''1.2.0''\<rparr>, \<lparr>name = ''bar'', version = ''2.0.0''\<rparr>]
      else Inl (JSONDecodeError ''Expecting value''))"

fun example_str :: "exn \<Rightarrow> string" where
  "example_str (CalledProcessError c n) = ''non-zero exit status '' @ str_int n"
| "example_str (JSONDecodeError m) = m"
| "example_str FileNotFoundError = ''No such file or directory''"
| "example_str (OtherException m) = m"

definition example_env :: "(string list \<Rightarrow> exn + completed_process) \<Rightarrow> pversion env" where
  "example_env run =
     \<lparr>subprocess_run = run, json_loads = example_loads, version_parse = pep440_parse,
      version_lt = version_less, exn_str = example_str\<rparr>"

definition pip_fails :: "string \<Rightarrow> exn + completed_process" where
  "pip_fails err = Inr \<lparr>returncode = 1, stdout = [], stderr = err\<rparr>"

text \<open>
  A small world: two packages are installed, the index answers for seven names, and the
  scanner finds something.
\<close>

definition example_run :: "string list \<Rightarrow> exn + completed_process" where
  "example_run command =
     (if command = list_command ''.''
      then Inr \<lparr>returncode = 0, stdout = ''[foo 1.2.0, bar 2.0.0]'', stderr = []\<rparr>
      else if command = install_command ''foo'' then pip_fails ''ERROR: (from versions: 1.2.0, 1.3.0)''
      else if command = install_command ''bar'' then pip_fails ''ERROR: (from versions: 1.9.0, 2.0.0)''
      else if command = install_command ''baz'' then pip_fails ''ERROR: (from versions: 1.8.0, 1.9.0)''
      else if command = install_command ''odd'' then pip_fails ''ERROR: (from versions: none)''
      else if command = install_command ''nil'' then pip_fails ''ERROR: (from versions: )''
      else if command = install_command ''qux'' then pip_fails ''ERROR: No matching distribution''
      else if command = install_command ''cut'' then pip_fails ''ERROR: (from versions: 1.0, 1.1''
      else if command = safety_command ''.''
      then Inr \<lparr>returncode = 1, stdout = ''1 vulnerability found'', stderr = []\<rparr>
      else Inl FileNotFoundError)"

text \<open>A world without pip and without the scanner, and one where nothing is installed.\<close>

definition nothing_installed_run :: "string list \<Rightarrow> exn + completed_process" where
  "nothing_installed_run command =
     (if command = list_command ''.'' then Inr \<lparr>returncode = 0, stdout = ''[]'', stderr = []\<rparr>
      else Inl FileNotFoundError)"

definition example_args :: "bool \<Rightarrow> args" where
  "example_args security =
     \<lparr>requirements = ''requirements.txt'', project_path = ''.'', verbose = False,
      check_security = security\<rparr>"



section \<open>Properties\<close>

subsection \<open>The loop of the Detector\<close>

lemma check_loop_acc:
  "check_loop env ps acc =
     (fst acc @ concat (map (\<lambda>p. fst (check_package env p)) ps),
      snd acc @ concat (map (\<lambda>p. snd (check_package env p)) ps))"
  by (induction ps arbitrary: acc) simp_all

lemma check_for_updates_Some:
  "check_for_updates env (Some ps) =
     (concat (map (\<lambda>p. fst (check_package env p)) ps),
      concat (map (\<lambda>p. snd (check_package env p)) ps))"
  by (simp add: check_for_updates_def check_loop_acc)

lemma check_for_updates_append:
  "check_for_updates env (Some (xs @ ys)) =
     (fst (check_for_updates env (Some xs)) @ fst (check_for_updates env (Some ys)),
      snd (check_for_updates env (Some xs)) @ snd (check_for_updates env (Some ys)))"
  by (simp add: check_for_updates_Some)

lemma check_for_updates_single:
  "check_for_updates env (Some [p]) = check_package env p"
  by (simp add: check_for_updates_Some)

lemma extract_latest_events:
  "extract_latest n out = (r, evs) \<Longrightarrow>
     (r = None \<and> evs = [could_not_determine n]) \<or> (r \<noteq> None \<and> evs = [])"
  by (auto simp: extract_latest_def Let_def split: option.splits if_splits)

lemma resolver_events:
  "snd (get_latest_package_version env n) =
     (case subprocess_run env (install_command n) of
        Inl e \<Rightarrow> [Run (install_command n), Log ERROR (latest_handler env n e)]
      | Inr r \<Rightarrow> if fst (get_latest_package_version env n) = None
                then [Run (install_command n), could_not_determine n]
                else [Run (install_command n)])"
  using extract_latest_events[of n]
  by (auto simp: get_latest_package_version_def split: sum.splits prod.splits)

lemma resolver_raised:
  "subprocess_run env (install_command n) = Inl e \<Longrightarrow> fst (get_latest_package_version env n) = None"
  by (simp add: get_latest_package_version_def)

lemma resolver_Some_events:
  "fst (get_latest_package_version env n) = Some l \<Longrightarrow>
     snd (get_latest_package_version env n) = [Run (install_command n)]"
  using resolver_raised[of env n]
  by (cases "subprocess_run env (install_command n)") (auto simp: resolver_events)

lemma check_package_skip:
  "\<not> truthy (resolver_answer env p) \<Longrightarrow>
     check_package env p =
       ([], snd (get_latest_package_version env (name p)) @ [could_not_retrieve (name p)])"
  by (cases "get_latest_package_version env (name p)")
     (auto simp: check_package_def resolver_answer_def split: option.splits)

lemma check_package_compare:
  "resolver_answer env p = Some l \<Longrightarrow> l \<noteq> [] \<Longrightarrow>
     check_package env p =
       (fst (compare_versions env (name p) (version p) l),
        Run (install_command (name p)) # snd (compare_versions env (name p) (version p) l))"
  using resolver_Some_events[of env "name p" l]
  by (cases "get_latest_package_version env (name p)")
     (auto simp: check_package_def resolver_answer_def split: option.splits prod.splits)

lemma compare_versions_fst:
  "fst (compare_versions env n i l) = (if outdated env i l then [mk_candidate n i l] else [])"
  by (auto simp: compare_versions_def outdated_def split: sum.splits)

lemma check_package_fst:
  "fst (check_package env p) =
     (if truthy (resolver_answer env p) \<and> needs_update env p then [candidate_of env p] else [])"
proof (cases "truthy (resolver_answer env p)")
  case False
  then show ?thesis by (simp add: check_package_skip)
next
  case True
  then obtain l where l: "resolver_answer env p = Some l" "l \<noteq> []"
    by (cases "resolver_answer env p") auto
  then show ?thesis
    by (simp add: check_package_compare compare_versions_fst needs_update_def candidate_of_def)
qed

lemma concat_map_if:
  "concat (map (\<lambda>x. if P x then [f x] else []) xs) = map f (filter P xs)"
  by (induction xs) simp_all

lemma detector_output:
  "fst (check_for_updates env (Some pkgs)) =
     map (candidate_of env) (filter (\<lambda>p. truthy (resolver_answer env p) \<and> needs_update env p) pkgs)"
  by (simp add: check_for_updates_Some check_package_fst concat_map_if)

lemma needs_update_truthy:
  "isl (version_parse env []) \<Longrightarrow> needs_update env p \<Longrightarrow> truthy (resolver_answer env p)"
  by (cases "resolver_answer env p")
     (auto simp: needs_update_def outdated_def isl_def split: sum.splits)

subsection \<open>More about the Detector\<close>

lemma candidate_from_package:
  "c \<in> set (fst (check_for_updates env (Some pkgs))) \<Longrightarrow>
     \<exists>q\<in>set pkgs. c = candidate_of env q \<and> truthy (resolver_answer env q) \<and> needs_update env q"
  by (auto simp: detector_output)

lemma candidate_of_sel [simp]:
  "cand_name (candidate_of env q) = name q"
  "installed_version (candidate_of env q) = version q"
  by (simp_all add: candidate_of_def mk_candidate_def)

lemma compare_versions_invalid:
  "isl (version_parse env i) \<or> isl (version_parse env l) \<Longrightarrow>
     \<exists>m. compare_versions env n i l = ([], [invalid_version_format n m])"
  by (auto simp: compare_versions_def isl_def split: sum.splits)

lemma not_outdated_invalid:
  "isl (version_parse env i) \<or> isl (version_parse env l) \<Longrightarrow> \<not> outdated env i l"
  by (auto simp: outdated_def isl_def split: sum.splits)

lemma check_for_updates_middle:
  "check_for_updates env (Some (xs @ p # ys)) =
     (fst (check_for_updates env (Some xs)) @ fst (check_package env p)
        @ fst (check_for_updates env (Some ys)),
      snd (check_for_updates env (Some xs)) @ snd (check_package env p)
        @ snd (check_for_updates env (Some ys)))"
  by (simp add: check_for_updates_Some)

lemma warnings_invalid [simp]:
  "warnings [Run c, invalid_version_format n m] = [''Invalid version format for '' @ n @ '': '' @ m]"
  by (simp add: warnings_def invalid_version_format_def)

lemma resolver_events_shape:
  "snd (get_latest_package_version env n) = [Run (install_command n)]
   \<or> snd (get_latest_package_version env n) = [Run (install_command n), could_not_determine n]
   \<or> (\<exists>e. snd (get_latest_package_version env n)
            = [Run (install_command n), Log ERROR (latest_handler env n e)])"
  by (cases "subprocess_run env (install_command n)") (auto simp: resolver_events)

lemma outdated_cong:
  "version_parse env1 = version_parse env2 \<Longrightarrow> version_lt env1 = version_lt env2 \<Longrightarrow>
     outdated env1 = outdated env2"
  by (intro ext) (simp add: outdated_def cong: sum.case_cong)

lemma check_package_fst_cong:
  assumes "resolver_answer env1 p = resolver_answer env2 p"
    and "version_parse env1 = version_parse env2" and "version_lt env1 = version_lt env2"
  shows "fst (check_package env1 p) = fst (check_package env2 p)"
  using assms(1) outdated_cong[OF assms(2,3)]
  by (simp add: check_package_fst needs_update_def candidate_of_def cong: option.case_cong)

subsection \<open>Searching the error output\<close>

lemma find_at_None: "find_at sub s i = None \<longleftrightarrow> \<not> sublist sub s"
  by (induction s arbitrary: i) (auto simp: sublist_Cons_right)

lemma find_at_first:
  "\<forall>j<length before. \<not> prefix sub (drop j (before @ sub @ rest)) \<Longrightarrow>
     find_at sub (before @ sub @ rest) i = Some (i + length before)"
proof (induction before arbitrary: i)
  case Nil
  have "prefix sub (sub @ rest)" by simp
  then show ?case by (cases "sub @ rest") auto
next
  case (Cons c cs)
  from Cons.prems have 0: "\<not> prefix sub (c # cs @ sub @ rest)" by force
  from Cons.prems have "\<forall>j<length cs. \<not> prefix sub (drop j (cs @ sub @ rest))" by force
  from Cons.IH[OF this] 0 show ?case by simp
qed

lemma find_at_sound:
  "find_at sub s i = Some k \<Longrightarrow>
     i \<le> k \<and> prefix sub (drop (k - i) s) \<and> (\<forall>j<k - i. \<not> prefix sub (drop j s))"
proof (induction s arbitrary: i)
  case Nil
  then show ?case by (auto split: if_splits)
next
  case (Cons c cs)
  show ?case
  proof (cases "prefix sub (c # cs)")
    case True
    with Cons.prems show ?thesis by simp
  next
    case False
    with Cons.prems have r: "find_at sub cs (Suc i) = Some k" by simp
    from Cons.IH[OF r] have k: "Suc i \<le> k" "prefix sub (drop (k - Suc i) cs)"
      "\<forall>j<k - Suc i. \<not> prefix sub (drop j cs)" by auto
    from k(1) have e: "k - i = Suc (k - Suc i)" by simp
    have "\<not> prefix sub (drop j (c # cs))" if "j < k - i" for j
      using that False k(3) e by (cases j) auto
    with k e show ?thesis by auto
  qed
qed

lemma first_occurrence:
  "find_at sub s 0 = Some k \<Longrightarrow> \<forall>j<k. \<not> prefix sub (drop j s)"
  using find_at_sound[of sub s 0 k] by simp

lemma find_at_char:
  "c \<notin> set inner \<Longrightarrow> find_at [c] (inner @ c # rest) i = Some (i + length inner)"
  by (induction inner arbitrary: i) auto

lemma find_at_char_None:
  "c \<notin> set s \<Longrightarrow> find_at [c] s i = None"
  by (induction s arbitrary: i) auto

lemma py_find_marker_None:
  "\<not> sublist marker out \<Longrightarrow> py_find out marker 0 = None"
  by (simp add: py_find_def find_at_None)

lemma py_find_marker_first:
  "\<forall>j<length before. \<not> prefix marker (drop j (before @ marker @ rest)) \<Longrightarrow>
     py_find (before @ marker @ rest) marker 0 = Some (length before)"
  using find_at_first[of before marker rest 0] by (simp add: py_find_def)

lemma py_split_not_Nil [simp]: "py_split c s \<noteq> []"
  by (induction s) (auto split: list.splits)

lemma extract_latest_no_marker:
  "\<not> sublist marker out \<Longrightarrow> extract_latest n out = (None, [could_not_determine n])"
  by (simp add: extract_latest_def py_find_marker_None)

lemma extract_latest_no_close:
  assumes "\<forall>j<length before. \<not> prefix marker (drop j (before @ marker @ rest))"
    and "CHR '')'' \<notin> set rest"
  shows "extract_latest n (before @ marker @ rest) = (None, [could_not_determine n])"
proof -
  have "py_find (before @ marker @ rest) '')'' (length before + length marker) = None"
    using assms(2) by (simp add: py_find_def find_at_char_None)
  then show ?thesis
    using py_find_marker_first[OF assms(1)] by (simp add: extract_latest_def)
qed

lemma extract_latest_found:
  assumes "\<forall>j<length before. \<not> prefix marker (drop j (before @ marker @ inner @ CHR '')'' # after))"
    and "CHR '')'' \<notin> set inner"
  shows "extract_latest n (before @ marker @ inner @ CHR '')'' # after)
         = (Some (last (map py_strip (py_split CHR '','' (py_strip inner)))), [])"
proof -
  let ?out = "before @ marker @ inner @ CHR '')'' # after"
  let ?start = "length before + length marker"
  have m: "py_find ?out marker 0 = Some (length before)"
    using py_find_marker_first[of before "inner @ CHR '')'' # after"] assms(1) by simp
  have c: "py_find ?out '')'' ?start = Some (?start + length inner)"
    using find_at_char[OF assms(2), of after ?start] by (simp add: py_find_def)
  have s: "py_slice ?out ?start (?start + length inner) = inner"
    by (simp add: py_slice_def)
  show ?thesis
    by (simp add: extract_latest_def m c s Let_def)
qed

lemma resolver_completed:
  "subprocess_run env (install_command n) = Inr r \<Longrightarrow>
     get_latest_package_version env n =
       (fst (extract_latest n (stderr r)), Run (install_command n) # snd (extract_latest n (stderr r)))"
  by (simp add: get_latest_package_version_def split: prod.splits)

subsection \<open>What a run prints and starts\<close>

lemma printed_append [simp]: "printed (xs @ ys) = printed xs @ printed ys"
  by (induction xs rule: printed.induct) simp_all

lemma started_append [simp]: "started (xs @ ys) = started xs @ started ys"
  by (induction xs rule: started.induct) simp_all

lemma logged_append [simp]: "logged (xs @ ys) = logged xs @ logged ys"
  by (induction xs rule: logged.induct) simp_all

lemma printed_lister [simp]: "printed (snd (get_installed_packages env path)) = []"
  by (simp add: get_installed_packages_def split: sum.splits)

lemma printed_scanner [simp]: "printed (check_security_vulnerabilities env path) = []"
  by (simp add: check_security_vulnerabilities_def safety_verdict_def split: sum.splits)

lemma printed_security_phase [simp]: "printed (security_phase env a) = []"
  by (simp add: security_phase_def)

lemma printed_resolver [simp]: "printed (snd (get_latest_package_version env n)) = []"
  using resolver_events_shape[of env n] by (auto simp: could_not_determine_def)

lemma printed_compare [simp]: "printed (snd (compare_versions env n i l)) = []"
  by (simp add: compare_versions_def invalid_version_format_def update_available_def split: sum.splits)

lemma printed_check_package [simp]: "printed (snd (check_package env p)) = []"
proof (cases "truthy (resolver_answer env p)")
  case False
  then show ?thesis by (simp add: check_package_skip could_not_retrieve_def)
next
  case True
  then obtain l where "resolver_answer env p = Some l" "l \<noteq> []"
    by (cases "resolver_answer env p") auto
  then show ?thesis by (simp add: check_package_compare)
qed

lemma printed_detector [simp]: "printed (snd (check_for_updates env (Some pkgs))) = []"
  by (induction pkgs) (simp_all add: check_for_updates_Some)

lemma printed_map_Print [simp]: "printed (map (\<lambda>u. Print (f u)) ups) = map f ups"
  by (induction ups) simp_all


lemma printed_update_phase:
  "printed (update_phase env installed) =
     (case installed of
        None \<Rightarrow> []
      | Some pkgs \<Rightarrow>
          if pkgs = [] then [] else printed (print_summary (fst (check_for_updates env (Some pkgs)))))"
  by (cases installed) (simp_all add: update_phase_def)

lemma printed_main:
  "printed (events (main env a)) =
     printed (update_phase env (fst (get_installed_packages env (project_path a))))"
  by (simp add: main_def)

lemma main_events:
  "events (main env a) =
     [Log INFO ''Starting dependency update check...'']
     @ snd (get_installed_packages env (project_path a))
     @ update_phase env (fst (get_installed_packages env (project_path a)))
     @ security_phase env a
     @ [Log INFO ''Dependency update check complete.'']"
  by (simp add: main_def)

lemma lister_events:
  "snd (get_installed_packages env path) =
     (case list_try env path of
        Inr pkgs \<Rightarrow> [Run (list_command path)]
      | Inl e \<Rightarrow> [Run (list_command path), Log ERROR (list_handler env e)])"
  by (simp add: get_installed_packages_def split: sum.splits)

lemma lister_Some_events:
  "fst (get_installed_packages env path) = Some pkgs \<Longrightarrow>
     snd (get_installed_packages env path) = [Run (list_command path)]"
  by (auto simp: get_installed_packages_def split: sum.splits)

lemma lister_None_events:
  "fst (get_installed_packages env path) = None \<Longrightarrow>
     \<exists>e. snd (get_installed_packages env path) = [Run (list_command path), Log ERROR (list_handler env e)]"
  by (auto simp: get_installed_packages_def split: sum.splits)


lemma up_to_date_only_if_installed:
  assumes "''All dependencies are up to date.'' \<in> set (printed (events (main env a)))"
  shows "\<exists>pkgs. fst (get_installed_packages env (project_path a)) = Some pkgs \<and> pkgs \<noteq> []"
  using assms
  by (cases "fst (get_installed_packages env (project_path a))")
     (auto simp: printed_main printed_update_phase split: if_splits)

lemma started_lister:
  "started (snd (get_installed_packages env path)) = [list_command path]"
  by (simp add: get_installed_packages_def split: sum.splits)

lemma started_scanner:
  "started (check_security_vulnerabilities env path) = [safety_command path]"
  by (simp add: check_security_vulnerabilities_def safety_verdict_def split: sum.splits)

lemma started_security_phase:
  "started (security_phase env a) = (if check_security a then [safety_command (project_path a)] else [])"
  by (simp add: security_phase_def started_scanner)

lemma scanner_clean:
  "subprocess_run env (safety_command path) = Inr r \<Longrightarrow> returncode r = 0 \<Longrightarrow>
     check_security_vulnerabilities env path
       = [Run (safety_command path), Log INFO ''No known security vulnerabilities found.'']"
  by (simp add: check_security_vulnerabilities_def safety_verdict_def)

lemma scanner_found:
  "subprocess_run env (safety_command path) = Inr r \<Longrightarrow> returncode r = 1 \<Longrightarrow>
     check_security_vulnerabilities env path
       = [Run (safety_command path), Log WARNING ''Security vulnerabilities found:'',
          Log WARNING (stdout r)]"
  by (simp add: check_security_vulnerabilities_def safety_verdict_def)

lemma scanner_failed:
  "subprocess_run env (safety_command path) = Inr r \<Longrightarrow> returncode r \<noteq> 0 \<Longrightarrow>
   returncode r \<noteq> 1 \<Longrightarrow>
     check_security_vulnerabilities env path
       = [Run (safety_command path),
          Log ERROR (''Safety check failed with return code '' @ str_int (returncode r)
                     @ '': '' @ stderr r)]"
  by (simp add: check_security_vulnerabilities_def safety_verdict_def)

lemma scanner_raised:
  "subprocess_run env (safety_command path) = Inl e \<Longrightarrow>
     check_security_vulnerabilities env path
       = [Run (safety_command path), Log ERROR (safety_handler env e)]"
  by (simp add: check_security_vulnerabilities_def)

subsection \<open>Claims about the Detector\<close>

text \<open>
  C2. For every list of packages and every environment, the list that
  \<^verbatim>\<open>check_for_updates\<close> returns is the input list, in its order, restricted to
  the packages for which the Resolver gave an answer, both version strings parse
  and the installed version is below the latest one; each entry carries the name,
  the installed version and the latest version of its package. The first part
  says so with the test the code makes on the answer (a string that is not
  empty); since the empty string is no version, that is the same list as the one
  the specification describes.
\<close>

theorem detector_output_is_spec_candidates:
  "fst (check_for_updates env (Some pkgs)) =
     map (candidate_of env) (filter (\<lambda>p. truthy (resolver_answer env p) \<and> needs_update env p) pkgs)
   \<and> (isl (version_parse env []) \<longrightarrow>
        fst (check_for_updates env (Some pkgs)) = spec_candidates env pkgs)"
proof (intro conjI impI)
  show "fst (check_for_updates env (Some pkgs)) =
     map (candidate_of env) (filter (\<lambda>p. truthy (resolver_answer env p) \<and> needs_update env p) pkgs)"
    by (rule detector_output)
next
  assume e: "isl (version_parse env [])"
  have "filter (\<lambda>p. truthy (resolver_answer env p) \<and> needs_update env p) pkgs = filter (needs_update env) pkgs"
    using needs_update_truthy[OF e] by (intro filter_cong) auto
  then show "fst (check_for_updates env (Some pkgs)) = spec_candidates env pkgs"
    by (simp add: detector_output spec_candidates_def)
qed


theorem detector_output_is_spec_candidates_witness:
  "isl (version_parse (example_env example_run) [])
   \<and> fst (check_for_updates (example_env example_run)
        (Some [\<lparr>name = ''foo'', version = ''1.2.0''\<rparr>, \<lparr>name = ''bar'', version = ''2.0.0''\<rparr>,
           \<lparr>name = ''baz'', version = ''1.10.0''\<rparr>, \<lparr>name = ''qux'', version = ''1.0''\<rparr>,
           \<lparr>name = ''foo'', version = ''one''\<rparr>]))
     = [\<lparr>cand_name = ''foo'', installed_version = ''1.2.0'', latest_version = ''1.3.0''\<rparr>]"
proof -
  let ?env = "example_env example_run"
  let ?pkgs = "[\<lparr>name = ''foo'', version = ''1.2.0''\<rparr>, \<lparr>name = ''bar'', version = ''2.0.0''\<rparr>,
           \<lparr>name = ''baz'', version = ''1.10.0''\<rparr>, \<lparr>name = ''qux'', version = ''1.0''\<rparr>,
           \<lparr>name = ''foo'', version = ''one''\<rparr>]"
  have a: "isl (version_parse ?env [])" by code_simp
  have b: "spec_candidates ?env ?pkgs
           = [\<lparr>cand_name = ''foo'', installed_version = ''1.2.0'', latest_version = ''1.3.0''\<rparr>]"
    by code_simp
  from detector_output_is_spec_candidates[of ?env ?pkgs] a have "fst (check_for_updates ?env (Some ?pkgs)) = spec_candidates ?env ?pkgs"
    by blast
  from this b have "fst (check_for_updates ?env (Some ?pkgs))
           = [\<lparr>cand_name = ''foo'', installed_version = ''1.2.0'', latest_version = ''1.3.0''\<rparr>]"
    by (rule trans)
  with a show ?thesis by (rule conjI)
qed

lemma could_not_retrieve_is_warning: "\<exists>m. could_not_retrieve n = Log WARNING m"
  by (simp add: could_not_retrieve_def)

lemma invalid_version_format_is_warning: "\<exists>m'. invalid_version_format n m = Log WARNING m'"
  by (simp add: invalid_version_format_def)

lemma check_package_invalid:
  assumes "isl (version_parse env (version p))
           \<or> (\<exists>l. resolver_answer env p = Some l \<and> isl (version_parse env l))"
  shows "fst (check_package env p) = []"
    and "\<exists>m. snd (check_package env p)
              = snd (get_latest_package_version env (name p)) @ [Log WARNING m]"
proof -
  have "fst (check_package env p) = []
        \<and> (\<exists>m. snd (check_package env p)
              = snd (get_latest_package_version env (name p)) @ [Log WARNING m])"
  proof (cases "truthy (resolver_answer env p)")
    case False
    then show ?thesis
      using could_not_retrieve_is_warning[of "name p"] by (auto simp: check_package_skip)
  next
    case True
    then obtain l where l: "resolver_answer env p = Some l" "l \<noteq> []"
      by (cases "resolver_answer env p") auto
    with assms have "isl (version_parse env (version p)) \<or> isl (version_parse env l)" by auto
    from compare_versions_invalid[OF this] obtain m where
      m: "compare_versions env (name p) (version p) l = ([], [invalid_version_format (name p) m])"
      by blast
    from l(1) have "snd (get_latest_package_version env (name p)) = [Run (install_command (name p))]"
      by (simp add: resolver_answer_def resolver_Some_events)
    then show ?thesis
      using invalid_version_format_is_warning[of "name p" m]
      by (auto simp: check_package_compare[OF l] m)
  qed
  then show "fst (check_package env p) = []"
    and "\<exists>m. snd (check_package env p)
              = snd (get_latest_package_version env (name p)) @ [Log WARNING m]" by blast+
qed

text \<open>
  C5. A package whose installed version string does not parse, or whose latest
  version string (the answer of the Resolver) does not parse, is skipped: it adds no
  candidate, no candidate of the output carries its name together with its installed
  version, and the packages before and after it are processed as if it were not
  there. In its round of the loop the Detector logs exactly one record, a warning,
  after what the Resolver caused. When the answer is a string that is not empty the
  versions are parsed, the warning is \<^verbatim>\<open>Invalid version format for ...\<close>, and
  it is the only warning of the round.
\<close>

theorem invalid_version_is_skipped:
  assumes "isl (version_parse env (version p))
           \<or> (\<exists>l. resolver_answer env p = Some l \<and> isl (version_parse env l))"
  shows "fst (check_for_updates env (Some (xs @ p # ys)))
           = fst (check_for_updates env (Some xs)) @ fst (check_for_updates env (Some ys))
         \<and> (\<exists>m. snd (check_package env p)
                  = snd (get_latest_package_version env (name p)) @ [Log WARNING m])
         \<and> (\<forall>l. resolver_answer env p = Some l \<and> l \<noteq> [] \<longrightarrow>
               (\<exists>m. snd (check_package env p)
                  = [Run (install_command (name p)), invalid_version_format (name p) m])
               \<and> length (warnings (snd (check_package env p))) = 1)
         \<and> snd (check_for_updates env (Some (xs @ p # ys)))
             = snd (check_for_updates env (Some xs)) @ snd (check_package env p)
               @ snd (check_for_updates env (Some ys))
         \<and> (\<forall>c\<in>set (fst (check_for_updates env (Some pkgs))).
               \<not> (cand_name c = name p \<and> installed_version c = version p))"
proof -
  have a: "fst (check_for_updates env (Some (xs @ p # ys)))
           = fst (check_for_updates env (Some xs)) @ fst (check_for_updates env (Some ys))"
    by (simp add: check_for_updates_middle check_package_invalid(1)[OF assms])
  have b: "snd (check_for_updates env (Some (xs @ p # ys)))
             = snd (check_for_updates env (Some xs)) @ snd (check_package env p)
               @ snd (check_for_updates env (Some ys))"
    by (simp add: check_for_updates_middle)
  have c: "\<not> (cand_name c = name p \<and> installed_version c = version p)"
    if "c \<in> set (fst (check_for_updates env (Some pkgs)))" for c
  proof
    assume eq: "cand_name c = name p \<and> installed_version c = version p"
    from candidate_from_package[OF that] obtain q where
      q: "c = candidate_of env q" "needs_update env q" by blast
    from eq q have nq: "name q = name p" "version q = version p" by simp_all
    then have ra: "resolver_answer env q = resolver_answer env p"
      by (simp add: resolver_answer_def)
    from q(2) ra nq obtain l where l: "resolver_answer env p = Some l" "outdated env (version p) l"
      by (cases "resolver_answer env p") (auto simp: needs_update_def)
    from assms l(1) have "isl (version_parse env (version p)) \<or> isl (version_parse env l)" by auto
    with not_outdated_invalid l(2) show False by blast
  qed
  have d: "(\<exists>m. snd (check_package env p)
                  = [Run (install_command (name p)), invalid_version_format (name p) m])
               \<and> length (warnings (snd (check_package env p))) = 1"
    if l: "resolver_answer env p = Some l \<and> l \<noteq> []" for l
  proof -
    from assms l have "isl (version_parse env (version p)) \<or> isl (version_parse env l)" by auto
    from compare_versions_invalid[OF this] obtain m where
      m: "compare_versions env (name p) (version p) l = ([], [invalid_version_format (name p) m])"
      by blast
    from l have cp: "check_package env p
        = ([], [Run (install_command (name p)), invalid_version_format (name p) m])"
      by (simp add: check_package_compare m)
    have "\<exists>m. snd (check_package env p)
                  = [Run (install_command (name p)), invalid_version_format (name p) m]"
      by (rule exI[of _ m]) (simp add: cp)
    then show ?thesis by (simp add: cp)
  qed
  from a b c d check_package_invalid(2)[OF assms] show ?thesis by blast
qed

theorem invalid_version_is_skipped_witness:
  "(\<exists>l. resolver_answer (example_env example_run) \<lparr>name = ''odd'', version = ''1.0''\<rparr> = Some l
        \<and> isl (version_parse (example_env example_run) l))
   \<and> fst (check_for_updates (example_env example_run)
        (Some ([\<lparr>name = ''foo'', version = ''1.2.0''\<rparr>] @ \<lparr>name = ''odd'', version = ''1.0''\<rparr>
               # [\<lparr>name = ''bar'', version = ''2.0.0''\<rparr>])))
     = fst (check_for_updates (example_env example_run) (Some [\<lparr>name = ''foo'', version = ''1.2.0''\<rparr>]))
       @ fst (check_for_updates (example_env example_run) (Some [\<lparr>name = ''bar'', version = ''2.0.0''\<rparr>]))
   \<and> length (warnings (snd (check_package (example_env example_run) \<lparr>name = ''odd'', version = ''1.0''\<rparr>))) = 1
   \<and> isl (version_parse (example_env example_run) ''one'')
   \<and> (\<exists>m. snd (check_package (example_env example_run) \<lparr>name = ''qux'', version = ''one''\<rparr>)
          = snd (get_latest_package_version (example_env example_run) ''qux'') @ [Log WARNING m])"
proof -
  let ?env = "example_env example_run"
  let ?p = "\<lparr>name = ''odd'', version = ''1.0''\<rparr>"
  let ?q = "\<lparr>name = ''qux'', version = ''one''\<rparr>"
  have h1: "resolver_answer ?env ?p = Some ''none''" by code_simp
  have h3: "isl (version_parse ?env ''none'')" by code_simp
  from h1 h3 have h: "\<exists>l. resolver_answer ?env ?p = Some l \<and> isl (version_parse ?env l)" by blast
  then have hp: "isl (version_parse ?env (version ?p))
           \<or> (\<exists>l. resolver_answer ?env ?p = Some l \<and> isl (version_parse ?env l))" by blast
  note t = invalid_version_is_skipped[OF hp, of "[\<lparr>name = ''foo'', version = ''1.2.0''\<rparr>]"
      "[\<lparr>name = ''bar'', version = ''2.0.0''\<rparr>]" "[]"]
  from t have 1: "fst (check_for_updates ?env
        (Some ([\<lparr>name = ''foo'', version = ''1.2.0''\<rparr>] @ ?p # [\<lparr>name = ''bar'', version = ''2.0.0''\<rparr>])))
     = fst (check_for_updates ?env (Some [\<lparr>name = ''foo'', version = ''1.2.0''\<rparr>]))
       @ fst (check_for_updates ?env (Some [\<lparr>name = ''bar'', version = ''2.0.0''\<rparr>]))" by blast
  from t h1 have 2: "length (warnings (snd (check_package ?env ?p))) = 1" by blast
  have g: "isl (version_parse ?env ''one'')" by code_simp
  then have hq: "isl (version_parse ?env (version ?q))
           \<or> (\<exists>l. resolver_answer ?env ?q = Some l \<and> isl (version_parse ?env l))" by simp
  from invalid_version_is_skipped[OF hq, of "[]" "[]" "[]"]
  have 3: "\<exists>m. snd (check_package ?env ?q)
          = snd (get_latest_package_version ?env (name ?q)) @ [Log WARNING m]" by blast
  then have 3: "\<exists>m. snd (check_package ?env ?q)
          = snd (get_latest_package_version ?env ''qux'') @ [Log WARNING m]" by simp
  from h 1 2 g 3 show ?thesis by blast
qed

text \<open>
  C6. A package whose lookup gives no latest version (\<^verbatim>\<open>None\<close>, or the empty
  string, which the Detector treats alike) is skipped: it adds no candidate, no
  candidate of the output carries its name, and the packages before and after it
  are processed as if it were not there. The Detector logs exactly one record for
  it, the warning \<^verbatim>\<open>Could not retrieve latest version ...\<close>, after what the
  Resolver caused: the call of pip alone (the answer was the empty string), or the
  call and the Resolver's own warning, or the call and the Resolver's error record.
\<close>

theorem indeterminate_lookup_is_skipped:
  assumes "\<not> truthy (resolver_answer env p)"
  shows "fst (check_for_updates env (Some (xs @ p # ys)))
           = fst (check_for_updates env (Some xs)) @ fst (check_for_updates env (Some ys))
         \<and> snd (check_for_updates env (Some (xs @ p # ys)))
             = snd (check_for_updates env (Some xs))
               @ snd (get_latest_package_version env (name p)) @ [could_not_retrieve (name p)]
               @ snd (check_for_updates env (Some ys))
         \<and> (snd (get_latest_package_version env (name p)) = [Run (install_command (name p))]
            \<or> snd (get_latest_package_version env (name p))
                = [Run (install_command (name p)), could_not_determine (name p)]
            \<or> (\<exists>e. snd (get_latest_package_version env (name p))
                = [Run (install_command (name p)), Log ERROR (latest_handler env (name p) e)]))
         \<and> (\<forall>c\<in>set (fst (check_for_updates env (Some pkgs))). cand_name c \<noteq> name p)"
proof -
  have cp: "check_package env p = ([], snd (get_latest_package_version env (name p)) @ [could_not_retrieve (name p)])"
    using assms by (rule check_package_skip)
  have c: "cand_name c \<noteq> name p" if "c \<in> set (fst (check_for_updates env (Some pkgs)))" for c
  proof
    assume eq: "cand_name c = name p"
    from candidate_from_package[OF that] obtain q where
      q: "c = candidate_of env q" "truthy (resolver_answer env q)" by blast
    from eq q(1) have "name q = name p" by simp
    then have "resolver_answer env q = resolver_answer env p" by (simp add: resolver_answer_def)
    with q(2) assms show False by simp
  qed
  have a: "fst (check_for_updates env (Some (xs @ p # ys)))
           = fst (check_for_updates env (Some xs)) @ fst (check_for_updates env (Some ys))"
    by (simp add: check_for_updates_middle cp)
  have b: "snd (check_for_updates env (Some (xs @ p # ys)))
             = snd (check_for_updates env (Some xs))
               @ snd (get_latest_package_version env (name p)) @ [could_not_retrieve (name p)]
               @ snd (check_for_updates env (Some ys))"
    by (simp add: check_for_updates_middle cp)
  from a b c resolver_events_shape[of env "name p"] show ?thesis by blast
qed

theorem indeterminate_lookup_is_skipped_witness:
  "\<not> truthy (resolver_answer (example_env example_run) \<lparr>name = ''qux'', version = ''1.0''\<rparr>)
   \<and> fst (check_for_updates (example_env example_run)
        (Some ([\<lparr>name = ''foo'', version = ''1.2.0''\<rparr>] @ \<lparr>name = ''qux'', version = ''1.0''\<rparr>
               # [\<lparr>name = ''bar'', version = ''2.0.0''\<rparr>])))
     = fst (check_for_updates (example_env example_run) (Some [\<lparr>name = ''foo'', version = ''1.2.0''\<rparr>]))
       @ fst (check_for_updates (example_env example_run) (Some [\<lparr>name = ''bar'', version = ''2.0.0''\<rparr>]))"
proof -
  let ?env = "example_env example_run"
  let ?p = "\<lparr>name = ''qux'', version = ''1.0''\<rparr>"
  have h1: "\<not> truthy (resolver_answer ?env ?p)" by code_simp
  note t = indeterminate_lookup_is_skipped[OF h1, of "[\<lparr>name = ''foo'', version = ''1.2.0''\<rparr>]"
      "[\<lparr>name = ''bar'', version = ''2.0.0''\<rparr>]" "[]"]
  from t h1 show ?thesis by blast
qed

text \<open>
  C9. The list that \<^verbatim>\<open>check_for_updates\<close> returns depends only on the
  installed packages and the Resolver's answer for each of them (and on the version
  library): two runs that agree on these return the same list, whatever else differs
  in the environment.
\<close>

theorem detector_depends_on_answers_only:
  assumes "\<forall>p\<in>set pkgs. resolver_answer env1 p = resolver_answer env2 p"
    and "version_parse env1 = version_parse env2" and "version_lt env1 = version_lt env2"
  shows "fst (check_for_updates env1 (Some pkgs)) = fst (check_for_updates env2 (Some pkgs))"
proof -
  have "map (\<lambda>p. fst (check_package env1 p)) pkgs = map (\<lambda>p. fst (check_package env2 p)) pkgs"
    using assms(1) check_package_fst_cong[OF _ assms(2,3)] by (intro map_cong refl) blast
  then show ?thesis by (simp only: check_for_updates_Some fst_conv)
qed

theorem detector_depends_on_answers_only_witness:
  "fst (check_for_updates (example_env example_run)
          (Some [\<lparr>name = ''foo'', version = ''1.2.0''\<rparr>, \<lparr>name = ''bar'', version = ''2.0.0''\<rparr>]))
   = fst (check_for_updates
            (example_env (\<lambda>c. if c = install_command ''foo''
                               then Inr \<lparr>returncode = 2, stdout = ''noise'',
                                         stderr = ''WARNING (from versions: 1.3.0) and more''\<rparr>
                               else example_run c))
          (Some [\<lparr>name = ''foo'', version = ''1.2.0''\<rparr>, \<lparr>name = ''bar'', version = ''2.0.0''\<rparr>]))"
proof -
  let ?env1 = "example_env example_run"
  let ?env2 = "example_env (\<lambda>c. if c = install_command ''foo''
                               then Inr \<lparr>returncode = 2, stdout = ''noise'',
                                         stderr = ''WARNING (from versions: 1.3.0) and more''\<rparr>
                               else example_run c)"
  let ?pkgs = "[\<lparr>name = ''foo'', version = ''1.2.0''\<rparr>, \<lparr>name = ''bar'', version = ''2.0.0''\<rparr>]"
  have a: "resolver_answer ?env1 \<lparr>name = ''foo'', version = ''1.2.0''\<rparr>
         = resolver_answer ?env2 \<lparr>name = ''foo'', version = ''1.2.0''\<rparr>" by code_simp
  have b: "resolver_answer ?env1 \<lparr>name = ''bar'', version = ''2.0.0''\<rparr>
         = resolver_answer ?env2 \<lparr>name = ''bar'', version = ''2.0.0''\<rparr>" by code_simp
  from a b have h1: "\<forall>p\<in>set ?pkgs. resolver_answer ?env1 p = resolver_answer ?env2 p" by simp
  have h2: "version_parse ?env1 = version_parse ?env2" by (simp add: example_env_def)
  have h3: "version_lt ?env1 = version_lt ?env2" by (simp add: example_env_def)
  show ?thesis by (rule detector_depends_on_answers_only[OF h1 h2 h3])
qed

subsection \<open>Claims about the Resolver\<close>

text \<open>
  C7. When pip has run and its error output does not contain the marker
  \<^verbatim>\<open>(from versions:\<close>, or contains it with no closing parenthesis after its
  first occurrence, the Resolver returns \<^verbatim>\<open>None\<close> and logs one warning; it
  does not raise. When the marker is followed by a closing parenthesis, it returns
  the last entry of the list between the two, split at commas, each entry
  stripped, and logs nothing.
\<close>

theorem resolver_marker_cases:
  assumes "subprocess_run env (install_command n) = Inr r"
  shows "(\<not> sublist marker (stderr r) \<longrightarrow>
            get_latest_package_version env n
              = (None, [Run (install_command n), could_not_determine n]))
       \<and> (\<forall>before rest.
            stderr r = before @ marker @ rest
            \<and> (\<forall>j<length before. \<not> prefix marker (drop j (stderr r)))
            \<and> CHR '')'' \<notin> set rest \<longrightarrow>
            get_latest_package_version env n
              = (None, [Run (install_command n), could_not_determine n]))
       \<and> (\<forall>before inner after.
            stderr r = before @ marker @ inner @ CHR '')'' # after
            \<and> (\<forall>j<length before. \<not> prefix marker (drop j (stderr r)))
            \<and> CHR '')'' \<notin> set inner \<longrightarrow>
            get_latest_package_version env n
              = (Some (last (map py_strip (py_split CHR '','' (py_strip inner)))),
                 [Run (install_command n)]))"
proof (intro conjI allI impI)
  assume "\<not> sublist marker (stderr r)"
  then show "get_latest_package_version env n = (None, [Run (install_command n), could_not_determine n])"
    by (simp add: resolver_completed[OF assms] extract_latest_no_marker)
next
  fix before rest
  assume h: "stderr r = before @ marker @ rest
            \<and> (\<forall>j<length before. \<not> prefix marker (drop j (stderr r)))
            \<and> CHR '')'' \<notin> set rest"
  then have e: "stderr r = before @ marker @ rest" and g: "CHR '')'' \<notin> set rest"
    and f: "\<forall>j<length before. \<not> prefix marker (drop j (stderr r))" by blast+
  from f have f': "\<forall>j<length before. \<not> prefix marker (drop j (before @ marker @ rest))"
    unfolding e .
  have "extract_latest n (stderr r) = (None, [could_not_determine n])"
    unfolding e by (rule extract_latest_no_close[OF f' g])
  then show "get_latest_package_version env n = (None, [Run (install_command n), could_not_determine n])"
    by (simp add: resolver_completed[OF assms])
next
  fix before inner after
  assume h: "stderr r = before @ marker @ inner @ CHR '')'' # after
            \<and> (\<forall>j<length before. \<not> prefix marker (drop j (stderr r)))
            \<and> CHR '')'' \<notin> set inner"
  then have e: "stderr r = before @ marker @ inner @ CHR '')'' # after"
    and g: "CHR '')'' \<notin> set inner"
    and f: "\<forall>j<length before. \<not> prefix marker (drop j (stderr r))" by blast+
  from f have f': "\<forall>j<length before.
      \<not> prefix marker (drop j (before @ marker @ inner @ CHR '')'' # after))"
    unfolding e .
  have "extract_latest n (stderr r)
     = (Some (last (map py_strip (py_split CHR '','' (py_strip inner)))), [])"
    unfolding e by (rule extract_latest_found[OF f' g])
  then show "get_latest_package_version env n
              = (Some (last (map py_strip (py_split CHR '','' (py_strip inner)))),
                 [Run (install_command n)])"
    by (simp add: resolver_completed[OF assms])
qed

theorem resolver_marker_cases_witness:
  "get_latest_package_version (example_env example_run) ''qux''
     = (None, [Run (install_command ''qux''), could_not_determine ''qux''])
   \<and> get_latest_package_version (example_env example_run) ''cut''
     = (None, [Run (install_command ''cut''), could_not_determine ''cut''])
   \<and> get_latest_package_version (example_env example_run) ''foo''
     = (Some ''1.3.0'', [Run (install_command ''foo'')])"
proof -
  let ?env = "example_env example_run"
  have q: "subprocess_run ?env (install_command ''qux'')
           = Inr \<lparr>returncode = 1, stdout = [], stderr = ''ERROR: No matching distribution''\<rparr>"
    by code_simp
  have "find_at marker ''ERROR: No matching distribution'' 0 = None" by code_simp
  then have qn: "\<not> sublist marker ''ERROR: No matching distribution''"
    by (rule iffD1[OF find_at_None])
  from resolver_marker_cases[OF q] qn have 1: "get_latest_package_version ?env ''qux''
     = (None, [Run (install_command ''qux''), could_not_determine ''qux''])" by simp
  have c: "subprocess_run ?env (install_command ''cut'')
           = Inr \<lparr>returncode = 1, stdout = [], stderr = ''ERROR: (from versions: 1.0, 1.1''\<rparr>"
    by code_simp
  have cf: "find_at marker ''ERROR: (from versions: 1.0, 1.1'' 0 = Some 7" by code_simp
  have cd: "''ERROR: (from versions: 1.0, 1.1'' = ''ERROR: '' @ marker @ '' 1.0, 1.1''"
    by (simp add: marker_def)
  have cn: "CHR '')'' \<notin> set '' 1.0, 1.1''" by simp
  from resolver_marker_cases[OF c] have "stderr \<lparr>returncode = 1, stdout = [], stderr = ''ERROR: (from versions: 1.0, 1.1''\<rparr>
        = ''ERROR: '' @ marker @ '' 1.0, 1.1''
      \<and> (\<forall>j<length ''ERROR: ''. \<not> prefix marker
            (drop j (stderr \<lparr>returncode = 1, stdout = [], stderr = ''ERROR: (from versions: 1.0, 1.1''\<rparr>)))
      \<and> CHR '')'' \<notin> set '' 1.0, 1.1'' \<longrightarrow>
      get_latest_package_version ?env ''cut''
        = (None, [Run (install_command ''cut''), could_not_determine ''cut''])"
    by blast
  with cd cn first_occurrence[OF cf] have 2: "get_latest_package_version ?env ''cut''
     = (None, [Run (install_command ''cut''), could_not_determine ''cut''])" by simp
  have f: "subprocess_run ?env (install_command ''foo'')
           = Inr \<lparr>returncode = 1, stdout = [], stderr = ''ERROR: (from versions: 1.2.0, 1.3.0)''\<rparr>"
    by code_simp
  have ff: "find_at marker ''ERROR: (from versions: 1.2.0, 1.3.0)'' 0 = Some 7" by code_simp
  have fd: "''ERROR: (from versions: 1.2.0, 1.3.0)'' = ''ERROR: '' @ marker @ '' 1.2.0, 1.3.0'' @ CHR '')'' # []"
    by (simp add: marker_def)
  have fn: "CHR '')'' \<notin> set '' 1.2.0, 1.3.0''" by simp
  have fv: "last (map py_strip (py_split CHR '','' (py_strip '' 1.2.0, 1.3.0''))) = ''1.3.0''"
    by code_simp
  from resolver_marker_cases[OF f] have "stderr \<lparr>returncode = 1, stdout = [], stderr = ''ERROR: (from versions: 1.2.0, 1.3.0)''\<rparr>
        = ''ERROR: '' @ marker @ '' 1.2.0, 1.3.0'' @ CHR '')'' # []
      \<and> (\<forall>j<length ''ERROR: ''. \<not> prefix marker
            (drop j (stderr \<lparr>returncode = 1, stdout = [], stderr = ''ERROR: (from versions: 1.2.0, 1.3.0)''\<rparr>)))
      \<and> CHR '')'' \<notin> set '' 1.2.0, 1.3.0'' \<longrightarrow>
      get_latest_package_version ?env ''foo''
        = (Some (last (map py_strip (py_split CHR '','' (py_strip '' 1.2.0, 1.3.0'')))),
           [Run (install_command ''foo'')])"
    by blast
  with fd fn first_occurrence[OF ff] have 3: "get_latest_package_version ?env ''foo''
     = (Some ''1.3.0'', [Run (install_command ''foo'')])" by (simp add: fv)
  from 1 2 3 show ?thesis by blast
qed

subsection \<open>Claims about the whole run\<close>



lemma list_handler_loads [simp]: "list_handler (env\<lparr>json_loads := f\<rparr>) e = list_handler env e"
  by (cases e) simp_all

lemma latest_handler_loads [simp]: "latest_handler (env\<lparr>json_loads := f\<rparr>) n e = latest_handler env n e"
  by (cases e) simp_all

lemma safety_handler_loads [simp]: "safety_handler (env\<lparr>json_loads := f\<rparr>) e = safety_handler env e"
  by (cases e) simp_all

lemma resolver_loads [simp]:
  "get_latest_package_version (env\<lparr>json_loads := f\<rparr>) n = get_latest_package_version env n"
  by (simp add: get_latest_package_version_def cong: sum.case_cong)

lemma compare_loads [simp]:
  "compare_versions (env\<lparr>json_loads := f\<rparr>) n i l = compare_versions env n i l"
  by (simp add: compare_versions_def cong: sum.case_cong)

lemma check_package_loads [simp]: "check_package (env\<lparr>json_loads := f\<rparr>) p = check_package env p"
  by (simp add: check_package_def split: prod.splits option.splits)

lemma check_loop_loads [simp]: "check_loop (env\<lparr>json_loads := f\<rparr>) ps acc = check_loop env ps acc"
  by (simp add: check_loop_acc)

lemma check_for_updates_loads [simp]:
  "check_for_updates (env\<lparr>json_loads := f\<rparr>) i = check_for_updates env i"
  by (simp add: check_for_updates_def split: option.splits)

lemma scanner_loads [simp]:
  "check_security_vulnerabilities (env\<lparr>json_loads := f\<rparr>) path = check_security_vulnerabilities env path"
  by (simp add: check_security_vulnerabilities_def cong: sum.case_cong)

lemma security_phase_loads [simp]: "security_phase (env\<lparr>json_loads := f\<rparr>) a = security_phase env a"
  by (simp add: security_phase_def)

lemma update_phase_loads [simp]: "update_phase (env\<lparr>json_loads := f\<rparr>) i = update_phase env i"
  by (simp add: update_phase_def)










text \<open>
  C10. When the Lister returns the empty list, \<^verbatim>\<open>main\<close> takes the failure
  branch: it logs the retrieval failure, starts no process for the update check
  (only the listing and, if asked for, the scanner), and prints nothing. The message
  that everything is up to date is printed only in runs in which at least one
  package is installed.
\<close>

theorem empty_listing_takes_failure_branch:
  "(fst (get_installed_packages env (project_path a)) = Some [] \<longrightarrow>
      events (main env a) =
        [Log INFO ''Starting dependency update check...'',
         Run (list_command (project_path a)),
         Log ERROR ''Failed to retrieve installed packages. Check logs for details.'']
        @ security_phase env a @ [Log INFO ''Dependency update check complete.'']
      \<and> printed (events (main env a)) = []
      \<and> started (events (main env a))
          = list_command (project_path a)
            # (if check_security a then [safety_command (project_path a)] else []))
   \<and> (''All dependencies are up to date.'' \<in> set (printed (events (main env a))) \<longrightarrow>
        (\<exists>pkgs. fst (get_installed_packages env (project_path a)) = Some pkgs \<and> pkgs \<noteq> []))"
proof (intro conjI impI)
  assume h: "fst (get_installed_packages env (project_path a)) = Some []"
  show e: "events (main env a) =
        [Log INFO ''Starting dependency update check...'',
         Run (list_command (project_path a)),
         Log ERROR ''Failed to retrieve installed packages. Check logs for details.'']
        @ security_phase env a @ [Log INFO ''Dependency update check complete.'']"
    using h lister_Some_events[OF h] by (simp add: main_def update_phase_def)
  show "printed (events (main env a)) = []"
    using h by (simp add: printed_main printed_update_phase)
  show "started (events (main env a))
          = list_command (project_path a)
            # (if check_security a then [safety_command (project_path a)] else [])"
    unfolding e by (simp add: started_security_phase)
next
  assume "''All dependencies are up to date.'' \<in> set (printed (events (main env a)))"
  then show "\<exists>pkgs. fst (get_installed_packages env (project_path a)) = Some pkgs \<and> pkgs \<noteq> []"
    by (rule up_to_date_only_if_installed)
qed

theorem empty_listing_takes_failure_branch_witness:
  "fst (get_installed_packages (example_env nothing_installed_run) (project_path (example_args True))) = Some []
   \<and> events (main (example_env nothing_installed_run) (example_args True))
     = [Log INFO ''Starting dependency update check...'',
        Run [''pip'', ''list'', ''--format=json''],
        Log ERROR ''Failed to retrieve installed packages. Check logs for details.'',
        Log INFO ''Checking for security vulnerabilities...'',
        Run [''safety'', ''check'', ''--full-report''],
        Log ERROR ''Safety not found. Please install it using: pip install safety'',
        Log INFO ''Dependency update check complete.'']
   \<and> printed (events (main (example_env nothing_installed_run) (example_args True))) = []"
proof -
  let ?env = "example_env nothing_installed_run"
  let ?a = "example_args True"
  have h: "fst (get_installed_packages ?env (project_path ?a)) = Some []" by code_simp
  have s: "[Log INFO ''Starting dependency update check...'',
         Run (list_command (project_path ?a)),
         Log ERROR ''Failed to retrieve installed packages. Check logs for details.'']
        @ security_phase ?env ?a @ [Log INFO ''Dependency update check complete.'']
     = [Log INFO ''Starting dependency update check...'',
        Run [''pip'', ''list'', ''--format=json''],
        Log ERROR ''Failed to retrieve installed packages. Check logs for details.'',
        Log INFO ''Checking for security vulnerabilities...'',
        Run [''safety'', ''check'', ''--full-report''],
        Log ERROR ''Safety not found. Please install it using: pip install safety'',
        Log INFO ''Dependency update check complete.'']" by code_simp
  from empty_listing_takes_failure_branch[of ?env ?a] h have e: "events (main ?env ?a) =
        [Log INFO ''Starting dependency update check...'',
         Run (list_command (project_path ?a)),
         Log ERROR ''Failed to retrieve installed packages. Check logs for details.'']
        @ security_phase ?env ?a @ [Log INFO ''Dependency update check complete.'']"
     and p: "printed (events (main ?env ?a)) = []" by blast+
  from e s have "events (main ?env ?a) = [Log INFO ''Starting dependency update check...'',
        Run [''pip'', ''list'', ''--format=json''],
        Log ERROR ''Failed to retrieve installed packages. Check logs for details.'',
        Log INFO ''Checking for security vulnerabilities...'',
        Run [''safety'', ''check'', ''--full-report''],
        Log ERROR ''Safety not found. Please install it using: pip install safety'',
        Log INFO ''Dependency update check complete.'']" by (rule trans)
  with h p show ?thesis by blast
qed

text \<open>
  C8. The scanner's exit code 0 is logged as clean, 1 as vulnerabilities found
  together with the scanner's standard output, any other code as a failure of the
  check, and a scanner that cannot be started as an error; none of these raises.
  The security phase does not change what is printed: the run with the flag is the
  run without it, with the scanner's events put in before the last record, whatever
  the Lister returned.
\<close>

theorem scanner_verdicts_and_independence:
  "printed (events (main env (a\<lparr>check_security := True\<rparr>)))
     = printed (events (main env (a\<lparr>check_security := False\<rparr>)))
   \<and> events (main env (a\<lparr>check_security := True\<rparr>))
     = butlast (events (main env (a\<lparr>check_security := False\<rparr>)))
       @ Log INFO ''Checking for security vulnerabilities...''
       # check_security_vulnerabilities env (project_path a)
       @ [Log INFO ''Dependency update check complete.'']
   \<and> (\<forall>r. subprocess_run env (safety_command path) = Inr r \<and> returncode r = 0 \<longrightarrow>
         check_security_vulnerabilities env path
           = [Run (safety_command path), Log INFO ''No known security vulnerabilities found.''])
   \<and> (\<forall>r. subprocess_run env (safety_command path) = Inr r \<and> returncode r = 1 \<longrightarrow>
         check_security_vulnerabilities env path
           = [Run (safety_command path), Log WARNING ''Security vulnerabilities found:'',
              Log WARNING (stdout r)])
   \<and> (\<forall>r. subprocess_run env (safety_command path) = Inr r \<and> returncode r \<noteq> 0
            \<and> returncode r \<noteq> 1 \<longrightarrow>
         check_security_vulnerabilities env path
           = [Run (safety_command path),
              Log ERROR (''Safety check failed with return code '' @ str_int (returncode r)
                         @ '': '' @ stderr r)])
   \<and> (\<forall>e. subprocess_run env (safety_command path) = Inl e \<longrightarrow>
         check_security_vulnerabilities env path
           = [Run (safety_command path), Log ERROR (safety_handler env e)])"
proof -
  have 1: "printed (events (main env (a\<lparr>check_security := True\<rparr>)))
     = printed (events (main env (a\<lparr>check_security := False\<rparr>)))"
    by (simp add: printed_main)
  have 2: "events (main env (a\<lparr>check_security := True\<rparr>))
     = butlast (events (main env (a\<lparr>check_security := False\<rparr>)))
       @ Log INFO ''Checking for security vulnerabilities...''
       # check_security_vulnerabilities env (project_path a)
       @ [Log INFO ''Dependency update check complete.'']"
    by (simp add: main_events security_phase_def butlast_append)
  from 1 2 show ?thesis
    by (auto simp: scanner_clean scanner_found scanner_failed scanner_raised)
qed

theorem scanner_verdicts_and_independence_witness:
  "events (main (example_env example_run) (example_args True))
     = butlast (events (main (example_env example_run) (example_args False)))
       @ [Log INFO ''Checking for security vulnerabilities...'',
          Run [''safety'', ''check'', ''--full-report''],
          Log WARNING ''Security vulnerabilities found:'',
          Log WARNING ''1 vulnerability found'',
          Log INFO ''Dependency update check complete.'']
   \<and> check_security_vulnerabilities (example_env nothing_installed_run) ''.''
     = [Run [''safety'', ''check'', ''--full-report''],
        Log ERROR ''Safety not found. Please install it using: pip install safety'']
   \<and> check_security_vulnerabilities
        (example_env (\<lambda>c. Inr \<lparr>returncode = 0, stdout = [], stderr = []\<rparr>)) ''.''
     = [Run [''safety'', ''check'', ''--full-report''],
        Log INFO ''No known security vulnerabilities found.'']
   \<and> check_security_vulnerabilities
        (example_env (\<lambda>c. Inr \<lparr>returncode = 64, stdout = [], stderr = ''usage''\<rparr>)) ''.''
     = [Run [''safety'', ''check'', ''--full-report''],
        Log ERROR ''Safety check failed with return code 64: usage'']"
proof -
  let ?env = "example_env example_run"
  have a: "example_args True = (example_args False)\<lparr>check_security := True\<rparr>"
    "example_args False = (example_args False)\<lparr>check_security := False\<rparr>"
    "project_path (example_args False) = ''.''"
    by (simp_all add: example_args_def)
  have r1: "subprocess_run ?env (safety_command ''.'')
            = Inr \<lparr>returncode = 1, stdout = ''1 vulnerability found'', stderr = []\<rparr>"
    by code_simp
  have c: "safety_command ''.'' = [''safety'', ''check'', ''--full-report'']" by code_simp
  note t = scanner_verdicts_and_independence[of ?env "example_args False" "''.''"]
  from t r1 have s1: "check_security_vulnerabilities ?env ''.''
      = [Run (safety_command ''.''), Log WARNING ''Security vulnerabilities found:'',
         Log WARNING ''1 vulnerability found'']" by simp
  from t have "events (main ?env ((example_args False)\<lparr>check_security := True\<rparr>))
     = butlast (events (main ?env ((example_args False)\<lparr>check_security := False\<rparr>)))
       @ Log INFO ''Checking for security vulnerabilities...''
       # check_security_vulnerabilities ?env (project_path (example_args False))
       @ [Log INFO ''Dependency update check complete.'']" by blast
  then have 1: "events (main ?env (example_args True))
     = butlast (events (main ?env (example_args False)))
       @ [Log INFO ''Checking for security vulnerabilities...'',
          Run [''safety'', ''check'', ''--full-report''],
          Log WARNING ''Security vulnerabilities found:'',
          Log WARNING ''1 vulnerability found'',
          Log INFO ''Dependency update check complete.'']"
    unfolding a[symmetric] by (simp add: a(3) s1 c)
  have r2: "subprocess_run (example_env nothing_installed_run) (safety_command ''.'') = Inl FileNotFoundError"
    by code_simp
  from scanner_verdicts_and_independence[of "example_env nothing_installed_run" "example_args False" "''.''"] r2
  have 2: "check_security_vulnerabilities (example_env nothing_installed_run) ''.''
     = [Run [''safety'', ''check'', ''--full-report''],
        Log ERROR ''Safety not found. Please install it using: pip install safety'']"
    by (simp add: c)
  have r3: "subprocess_run (example_env (\<lambda>c. Inr \<lparr>returncode = 0, stdout = [], stderr = []\<rparr>))
              (safety_command ''.'') = Inr \<lparr>returncode = 0, stdout = [], stderr = []\<rparr>"
    by (simp add: example_env_def)
  from scanner_verdicts_and_independence[of "example_env (\<lambda>c. Inr \<lparr>returncode = 0, stdout = [], stderr = []\<rparr>)"
      "example_args False" "''.''"] r3
  have 3: "check_security_vulnerabilities
        (example_env (\<lambda>c. Inr \<lparr>returncode = 0, stdout = [], stderr = []\<rparr>)) ''.''
     = [Run [''safety'', ''check'', ''--full-report''],
        Log INFO ''No known security vulnerabilities found.'']"
    by (simp add: c)
  have r4: "subprocess_run (example_env (\<lambda>c. Inr \<lparr>returncode = 64, stdout = [], stderr = ''usage''\<rparr>))
              (safety_command ''.'') = Inr \<lparr>returncode = 64, stdout = [], stderr = ''usage''\<rparr>"
    by (simp add: example_env_def)
  have n: "str_int 64 = ''64''" by code_simp
  from scanner_verdicts_and_independence[of "example_env (\<lambda>c. Inr \<lparr>returncode = 64, stdout = [], stderr = ''usage''\<rparr>)"
      "example_args False" "''.''"] r4
  have 4: "check_security_vulnerabilities
        (example_env (\<lambda>c. Inr \<lparr>returncode = 64, stdout = [], stderr = ''usage''\<rparr>)) ''.''
     = [Run [''safety'', ''check'', ''--full-report''],
        Log ERROR ''Safety check failed with return code 64: usage'']"
    by (simp add: c n)
  from 1 2 3 4 show ?thesis by blast
qed

text \<open>
  C4, as the code has it. For the empty list the Reporter prints the one line
  \<^verbatim>\<open>All dependencies are up to date.\<close> For a list that is not empty it prints
  the line \<^verbatim>\<open>Updates available:\<close> and then one line for each candidate, in
  order, of the form
  \<^verbatim>\<open>- name: Installed version installed_version, latest version latest_version\<close>.
\<close>

theorem summary_header_and_lines:
  "print_summary [] = [Print ''All dependencies are up to date.'']
   \<and> (ups \<noteq> [] \<longrightarrow>
        print_summary ups
          = Print ''Updates available:''
            # map (\<lambda>u. Print (''- '' @ cand_name u @ '': Installed version '' @ installed_version u
                              @ '', latest version '' @ latest_version u)) ups
        \<and> length (printed (print_summary ups)) = Suc (length ups))"
  by (simp add: print_summary_def update_line_def)

theorem summary_header_and_lines_witness:
  "print_summary [\<lparr>cand_name = ''foo'', installed_version = ''1.2.0'', latest_version = ''1.3.0''\<rparr>]
     = [Print ''Updates available:'',
        Print ''- foo: Installed version 1.2.0, latest version 1.3.0'']"
  using summary_header_and_lines[of "[\<lparr>cand_name = ''foo'', installed_version = ''1.2.0'', latest_version = ''1.3.0''\<rparr>]"]
  by simp

text \<open>
  C4 as stated fails for one candidate: two lines are printed, and none of them is
  \<^verbatim>\<open>foo: 1.2.0 -> 1.3.0\<close>.
\<close>

theorem summary_line_format_differs:
  "printed (print_summary
      [\<lparr>cand_name = ''foo'', installed_version = ''1.2.0'', latest_version = ''1.3.0''\<rparr>])
     = [''Updates available:'', ''- foo: Installed version 1.2.0, latest version 1.3.0'']
   \<and> ''foo: 1.2.0 -> 1.3.0'' \<notin> set (printed (print_summary
      [\<lparr>cand_name = ''foo'', installed_version = ''1.2.0'', latest_version = ''1.3.0''\<rparr>]))"
  by code_simp

subsection \<open>The order of versions\<close>

lemma strip_zeros_Nil [simp]: "strip_zeros [] = []"
  by (simp add: strip_zeros_def)

lemma strip_zeros_eq_Nil: "strip_zeros xs = [] \<longleftrightarrow> (\<forall>x\<in>set xs. x = 0)"
  by (simp add: strip_zeros_def dropWhile_eq_Nil_conv)

lemma strip_zeros_Cons:
  "strip_zeros (x # xs) = (if x = 0 \<and> strip_zeros xs = [] then [] else x # strip_zeros xs)"
  by (auto simp: strip_zeros_def dropWhile_append dropWhile_eq_Nil_conv)

lemma tuple_less_Nil_left [simp]: "tuple_less [] ys = (ys \<noteq> [])"
  by (cases ys) simp_all

lemma tuple_less_Nil_right [simp]: "tuple_less xs [] = False"
  by (cases xs) simp_all

lemma release_less_agrees:
  "tuple_less (strip_zeros xs) (strip_zeros ys) = segments_less xs ys"
  by (induction xs ys rule: segments_less.induct) (auto simp: strip_zeros_Cons)

lemma release_equal_agrees:
  "(strip_zeros xs = strip_zeros ys) = segments_equal xs ys"
  by (induction xs ys rule: segments_equal.induct) (auto simp: strip_zeros_Cons)

lemma tag_rank_inj: "tag_rank s = tag_rank t \<longleftrightarrow> s = t"
  by (cases s; cases t) simp_all

lemma tag_rank_bound [simp]:
  "tag_rank t \<noteq> 3" "3 \<noteq> tag_rank t" "tag_rank t < 3" "\<not> 3 < tag_rank t"
  by (cases t; simp)+

lemma pre_key_less_agrees:
  "bounded_less pre_less (pre_key a) (pre_key b)
     = (stage a < stage b \<or> (stage a = stage b \<and> pre_number a < pre_number b))"
  by (auto simp: pre_key_def stage_def pre_number_def pre_less_def tag_rank_inj
           split: option.splits)

lemma pre_key_equal_agrees:
  "(pre_key a = pre_key b) = (stage a = stage b \<and> pre_number a = pre_number b)"
  by (auto simp: pre_key_def stage_def pre_number_def tag_rank_inj split: option.splits)

lemma post_key_less_agrees:
  "bounded_less (<) (post_key a) (post_key b) = post_before (post a) (post b)"
  by (auto simp: post_key_def split: option.splits)

lemma post_key_equal_agrees: "(post_key a = post_key b) = (post a = post b)"
  by (auto simp: post_key_def split: option.splits)

lemma dev_key_less_agrees:
  "bounded_less (<) (dev_key a) (dev_key b) = dev_before (dev a) (dev b)"
  by (auto simp: dev_key_def split: option.splits)

lemma version_less_agrees: "version_less a b = semver_less a b"
  unfolding version_less_def semver_less_def qualifier_less_def
    release_less_agrees release_equal_agrees pre_key_less_agrees pre_key_equal_agrees
    post_key_less_agrees post_key_equal_agrees dev_key_less_agrees
  by blast

lemma compare_versions_parsed:
  "version_parse env a = Inr va \<Longrightarrow> version_parse env b = Inr vb \<Longrightarrow>
     fst (compare_versions env n a b) = (if version_lt env va vb then [mk_candidate n a b] else [])"
  by (simp add: compare_versions_def)

lemma pep440_parse_Some: "parse_version s = Some v \<Longrightarrow> pep440_parse s = Inr v"
  by (simp add: pep440_parse_def)

text \<open>
  C1. With the version model above as the library, the comparison the Detector makes
  (line 111: the installed version parsed, below the latest version parsed) gives,
  for every two strings that parse, the order of the specification: release
  segments as numbers, position by position, and for equal releases the
  pre-release before the final release. It reports \<^verbatim>\<open>1.9.0\<close> as older than
  \<^verbatim>\<open>1.10.0\<close>, though the strings sort the other way, and does not report
  \<^verbatim>\<open>2.0.0\<close> as older than \<^verbatim>\<open>2.0.0rc1\<close>.
\<close>

theorem detector_comparison_is_semantic:
  assumes "version_parse env = pep440_parse" and "version_lt env = version_less"
  shows "(\<forall>a b va vb. parse_version a = Some va \<and> parse_version b = Some vb \<longrightarrow>
            fst (compare_versions env n a b)
              = (if semver_less va vb then [mk_candidate n a b] else []))
       \<and> fst (compare_versions env n ''1.9.0'' ''1.10.0'') = [mk_candidate n ''1.9.0'' ''1.10.0'']
       \<and> lexical_less ''1.10.0'' ''1.9.0''
       \<and> fst (compare_versions env n ''2.0.0'' ''2.0.0rc1'') = []
       \<and> fst (compare_versions env n ''2.0.0rc1'' ''2.0.0'') = [mk_candidate n ''2.0.0rc1'' ''2.0.0'']"
proof -
  have g: "fst (compare_versions env n a b)
              = (if semver_less va vb then [mk_candidate n a b] else [])"
    if "parse_version a = Some va" "parse_version b = Some vb" for a b va vb
    using that assms
    by (simp add: compare_versions_parsed pep440_parse_Some version_less_agrees)
  have p1: "parse_version ''1.9.0'' = Some \<lparr>release = [1, 9, 0], pre = None, post = None, dev = None\<rparr>"
    by code_simp
  have p2: "parse_version ''1.10.0'' = Some \<lparr>release = [1, 10, 0], pre = None, post = None, dev = None\<rparr>"
    by code_simp
  have p3: "parse_version ''2.0.0'' = Some \<lparr>release = [2, 0, 0], pre = None, post = None, dev = None\<rparr>"
    by code_simp
  have p4: "parse_version ''2.0.0rc1'' = Some \<lparr>release = [2, 0, 0], pre = Some (RC, 1), post = None, dev = None\<rparr>"
    by code_simp
  have s1: "semver_less \<lparr>release = [1, 9, 0], pre = None, post = None, dev = None\<rparr>
              \<lparr>release = [1, 10, 0], pre = None, post = None, dev = None\<rparr>" by code_simp
  have s2: "\<not> semver_less \<lparr>release = [2, 0, 0], pre = None, post = None, dev = None\<rparr>
              \<lparr>release = [2, 0, 0], pre = Some (RC, 1), post = None, dev = None\<rparr>" by code_simp
  have s3: "semver_less \<lparr>release = [2, 0, 0], pre = Some (RC, 1), post = None, dev = None\<rparr>
              \<lparr>release = [2, 0, 0], pre = None, post = None, dev = None\<rparr>" by code_simp
  have l: "lexical_less ''1.10.0'' ''1.9.0''" by code_simp
  from g[OF p1 p2] s1 have e1: "fst (compare_versions env n ''1.9.0'' ''1.10.0'') = [mk_candidate n ''1.9.0'' ''1.10.0'']"
    by simp
  from g[OF p3 p4] s2 have e2: "fst (compare_versions env n ''2.0.0'' ''2.0.0rc1'') = []" by simp
  from g[OF p4 p3] s3 have e3: "fst (compare_versions env n ''2.0.0rc1'' ''2.0.0'') = [mk_candidate n ''2.0.0rc1'' ''2.0.0'']"
    by simp
  from g e1 e2 e3 l show ?thesis by blast
qed

theorem detector_comparison_is_semantic_witness:
  "version_parse (example_env example_run) = pep440_parse
   \<and> version_lt (example_env example_run) = version_less
   \<and> fst (compare_versions (example_env example_run) ''foo'' ''1.9.0'' ''1.10.0'')
       = [\<lparr>cand_name = ''foo'', installed_version = ''1.9.0'', latest_version = ''1.10.0''\<rparr>]
   \<and> lexical_less ''1.10.0'' ''1.9.0''
   \<and> fst (compare_versions (example_env example_run) ''foo'' ''2.0.0'' ''2.0.0rc1'') = []
   \<and> fst (compare_versions (example_env example_run) ''foo'' ''1.0'' ''1.0.0'') = []
   \<and> fst (compare_versions (example_env example_run) ''foo'' ''1.0.dev1'' ''1.0a1'')
       = [\<lparr>cand_name = ''foo'', installed_version = ''1.0.dev1'', latest_version = ''1.0a1''\<rparr>]"
proof -
  let ?env = "example_env example_run"
  have h1: "version_parse ?env = pep440_parse" by (simp add: example_env_def)
  have h2: "version_lt ?env = version_less" by (simp add: example_env_def)
  note t = detector_comparison_is_semantic[OF h1 h2, of "''foo''"]
  have p1: "parse_version ''1.0'' = Some \<lparr>release = [1, 0], pre = None, post = None, dev = None\<rparr>"
    by code_simp
  have p2: "parse_version ''1.0.0'' = Some \<lparr>release = [1, 0, 0], pre = None, post = None, dev = None\<rparr>"
    by code_simp
  have p3: "parse_version ''1.0.dev1'' = Some \<lparr>release = [1, 0], pre = None, post = None, dev = Some 1\<rparr>"
    by code_simp
  have p4: "parse_version ''1.0a1'' = Some \<lparr>release = [1, 0], pre = Some (Alpha, 1), post = None, dev = None\<rparr>"
    by code_simp
  have s1: "\<not> semver_less \<lparr>release = [1, 0], pre = None, post = None, dev = None\<rparr>
              \<lparr>release = [1, 0, 0], pre = None, post = None, dev = None\<rparr>" by code_simp
  have s2: "semver_less \<lparr>release = [1, 0], pre = None, post = None, dev = Some 1\<rparr>
              \<lparr>release = [1, 0], pre = Some (Alpha, 1), post = None, dev = None\<rparr>" by code_simp
  from t p1 p2 have "fst (compare_versions ?env ''foo'' ''1.0'' ''1.0.0'')
     = (if semver_less \<lparr>release = [1, 0], pre = None, post = None, dev = None\<rparr>
              \<lparr>release = [1, 0, 0], pre = None, post = None, dev = None\<rparr>
        then [mk_candidate ''foo'' ''1.0'' ''1.0.0''] else [])" by blast
  with s1 have e1: "fst (compare_versions ?env ''foo'' ''1.0'' ''1.0.0'') = []" by simp
  from t p3 p4 have "fst (compare_versions ?env ''foo'' ''1.0.dev1'' ''1.0a1'')
     = (if semver_less \<lparr>release = [1, 0], pre = None, post = None, dev = Some 1\<rparr>
              \<lparr>release = [1, 0], pre = Some (Alpha, 1), post = None, dev = None\<rparr>
        then [mk_candidate ''foo'' ''1.0.dev1'' ''1.0a1''] else [])" by blast
  with s2 have e2: "fst (compare_versions ?env ''foo'' ''1.0.dev1'' ''1.0a1'')
       = [\<lparr>cand_name = ''foo'', installed_version = ''1.0.dev1'', latest_version = ''1.0a1''\<rparr>]"
    by (simp add: mk_candidate_def)
  from t have e3: "fst (compare_versions ?env ''foo'' ''1.9.0'' ''1.10.0'')
       = [\<lparr>cand_name = ''foo'', installed_version = ''1.9.0'', latest_version = ''1.10.0''\<rparr>]"
    by (simp add: mk_candidate_def)
  from t have e4: "lexical_less ''1.10.0'' ''1.9.0''" by blast
  from t have e5: "fst (compare_versions ?env ''foo'' ''2.0.0'' ''2.0.0rc1'') = []" by blast
  from h1 h2 e1 e2 e3 e4 e5 show ?thesis by blast
qed

end
